theory Spec2Isabelle
  imports Main "HOL-Library.Word"
begin

unbundle bit_operations_syntax

section \<open>Data model of the FEC driver (webserver/FEC.c)\<close>

text \<open>
  Pointers are addresses (\<open>nat\<close>, with \<open>NULL = 0\<close>): a C array object never wraps
  around the address space, so pointer arithmetic inside the driver's static arrays is
  plain addition. Array indices (\<open>unsigned portBASE_TYPE\<close>) are \<open>nat\<close>; they stay below
  the ring depth, far from the 32-bit limit. Descriptor fields and registers keep their
  widths.
\<close>

type_synonym addr = nat

definition NULL :: addr where
  "NULL = 0"

text \<open>The buffer descriptor \<open>FECBD\<close> of fecbd.h: 16-bit status, 16-bit length, data pointer.\<close>

record FECBD =
  status :: "16 word"
  length_bd :: "16 word"
  data :: addr

text \<open>
  The registers the driver functions below touch: those of the FEC, and the level and
  mask registers of the interrupt controller (\<open>MCF_INTC0_ICR( ux )\<close> is one register
  for each vector \<open>ux\<close>).
\<close>

datatype fec_reg =
    MCF_FEC_ECR | MCF_FEC_EIR | MCF_FEC_EIMR | MCF_FEC_RDAR | MCF_FEC_TDAR
  | MCF_FEC_RCR | MCF_FEC_TCR | MCF_FEC_MMFR
  | MCF_FEC_IALR | MCF_FEC_IAUR | MCF_FEC_GALR | MCF_FEC_GAUR
  | MCF_FEC_PALR | MCF_FEC_PAUR | MCF_FEC_EMRBR | MCF_FEC_ERDSR | MCF_FEC_ETSDR
  | MCF_INTC0_ICR nat | MCF_INTC0_IMRH | MCF_INTC0_IMRL

text \<open>
  The constants FEC.c takes from headers outside the verified file (FreeRTOSConfig.h of
  this demo, fecbd.h, the MCF5223x register header, eth_phy.h) and the link-time
  addresses of its three static arrays. They are parameters of every function below; no
  value is assumed for them.
\<close>

record fec_env =
  configNUM_FEC_RX_BUFFERS :: nat
  configFEC_BUFFER_SIZE :: nat
  xFECTxDescriptors_unaligned :: addr
  xFECRxDescriptors_unaligned :: addr
  ucFECRxBuffers :: addr
  TX_BD_R :: "16 word"
  TX_BD_W :: "16 word"
  TX_BD_L :: "16 word"
  TX_BD_TC :: "16 word"
  RX_BD_E :: "16 word"
  RX_BD_W :: "16 word"
  MCF_FEC_EIR_MII :: "32 word"
  MCF_FEC_EIR_RXB :: "32 word"
  MCF_FEC_EIR_RXF :: "32 word"
  MCF_FEC_EIR_TXB :: "32 word"
  MCF_FEC_EIR_TXF :: "32 word"
  MCF_FEC_EIR_UN :: "32 word"
  MCF_FEC_EIR_RL :: "32 word"
  MCF_FEC_EIR_LC :: "32 word"
  MCF_FEC_EIR_EBERR :: "32 word"
  MCF_FEC_EIR_BABT :: "32 word"
  MCF_FEC_EIR_BABR :: "32 word"
  MCF_FEC_EIR_HBERR :: "32 word"
  MCF_FEC_EIMR_MII :: "32 word"
  MCF_FEC_ECR_RESET :: "32 word"
  MCF_FEC_ECR_ETHER_EN :: "32 word"
  MCF_FEC_RDAR_R_DES_ACTIVE :: "32 word"
  MCF_FEC_TDAR_X_DES_ACTIVE :: "32 word"
  MCF_FEC_RCR_DRT :: "32 word"
  MCF_FEC_TCR_FDEN :: "32 word"
  MCF_FEC_MMFR_ST_01 :: "32 word"
  MCF_FEC_MMFR_OP_READ :: "32 word"
  MCF_FEC_MMFR_TA_10 :: "32 word"
  MCF_FEC_MMFR_PA :: "32 word \<Rightarrow> 32 word"
  MCF_FEC_MMFR_RA :: "32 word \<Rightarrow> 32 word"
  PHY_ANLPAR_100BTX_FDX :: "16 word"
  PHY_ANLPAR_100BTX :: "16 word"
  PHY_ANLPAR_10BTX_FDX :: "16 word"

text \<open>
  The header constants that only the end of \<open>vInitFEC\<close> and the functions it calls
  there use (FreeRTOSConfig.h, eth.h, eth_phy.h, the MCF5223x register header), again as
  parameters.
\<close>

record fec_init_env =
  configPHY_ADDRESS :: "32 word"
  PHY_ANLPAR :: "32 word"
  configMAC_0 :: "8 word"
  configMAC_1 :: "8 word"
  configMAC_2 :: "8 word"
  configMAC_3 :: "8 word"
  configMAC_4 :: "8 word"
  configMAC_5 :: "8 word"
  ETH_MAX_FRM :: "32 word"
  MCF_FEC_RCR_FCE :: "32 word"
  MCF_FEC_RCR_MII_MODE :: "32 word"
  MCF_FEC_RCR_PROM :: "32 word"
  configUSE_PROMISCUOUS_MODE :: nat
  MCF_FEC_EIR_CLEAR_ALL :: "32 word"
  MCF_FEC_EIMR_UNMASK_ALL :: "32 word"
  MCF_INTC_ICR_IL :: "32 word \<Rightarrow> 32 word"
  configFEC_INTERRUPT_PRIORITY :: "32 word"
  MCF_INTC_IMRH_INT_MASK33 :: "32 word"
  MCF_INTC_IMRH_INT_MASK34 :: "32 word"
  MCF_INTC_IMRH_INT_MASK35 :: "32 word"
  MCF_INTC_IMRL_INT_MASK23 :: "32 word"
  MCF_INTC_IMRL_INT_MASK24 :: "32 word"
  MCF_INTC_IMRL_INT_MASK25 :: "32 word"
  MCF_INTC_IMRL_INT_MASK26 :: "32 word"
  MCF_INTC_IMRL_INT_MASK27 :: "32 word"
  MCF_INTC_IMRL_INT_MASK28 :: "32 word"
  MCF_INTC_IMRL_INT_MASK29 :: "32 word"
  MCF_INTC_IMRL_INT_MASK30 :: "32 word"
  MCF_INTC_IMRL_INT_MASK31 :: "32 word"
  MCF_INTC_IMRL_MASKALL :: "32 word"

text \<open>
  The module-level variables of FEC.c, the two uIP variables it shares with the stack,
  the register file as the processor sees it, and the sequence of register writes the
  driver has issued (\<open>mmio\<close>, oldest first). The descriptor rings are the arrays the
  pointers \<open>xFECTxDescriptors\<close> and \<open>xFECRxDescriptors\<close> address; the pointer values
  themselves are \<open>xFECTxDescriptors_ptr\<close> and \<open>xFECRxDescriptors_ptr\<close>.
\<close>

record fec_state =
  xFECSemaphore :: bool
  xTxSemaphore :: bool
  uxCriticalNesting :: nat
  uip_buf :: addr
  uip_len :: "16 word"
  xFECTxDescriptors_ptr :: addr
  xFECRxDescriptors_ptr :: addr
  xFECTxDescriptors :: "FECBD list"
  xFECRxDescriptors :: "FECBD list"
  uxNextRxBuffer :: nat
  uxIndexToBufferOwner :: nat
  regs :: "fec_reg \<Rightarrow> 32 word"
  mmio :: "(fec_reg \<times> 32 word) list"

definition fecMAX_POLLS :: nat where
  "fecMAX_POLLS = 20"

definition fecNUM_FEC_TX_BUFFERS :: nat where
  "fecNUM_FEC_TX_BUFFERS = 1"

definition fecTX_BUFFER_TO_USE :: nat where
  "fecTX_BUFFER_TO_USE = 0"

section \<open>Collaborators at the driver's boundary\<close>

text \<open>
  Modelled from the spec: the device's register file (the MCF5223x FEC itself) is not
  code. A write stores the value and is appended to \<open>mmio\<close>; the event register is
  write-to-clear (spec 4.5), so a write of \<open>v\<close> to it clears the bits of \<open>v\<close>. What the
  device does in reaction to a write is outside the driver and is not modelled.
\<close>

definition reg_write :: "fec_reg \<Rightarrow> 32 word \<Rightarrow> fec_state \<Rightarrow> fec_state" where
  "reg_write r v s =
     s\<lparr>regs := (regs s)(r := (if r = MCF_FEC_EIR then regs s r AND NOT v else v)),
       mmio := mmio s @ [(r, v)]\<rparr>"

text \<open>
  Modelled from the spec: the kernel's binary wake-up primitive (semphr.h, queue.c),
  which lies outside the verified file. A binary semaphore holds at most one token. The state
  given to \<open>xSemaphoreTake\<close> is the state at the moment the call returns, after the
  bounded wait: the take passes when a token is there and consumes it, and fails
  (timeout) when none is. Giving leaves one token.
\<close>

definition xSemaphoreTake_xTxSemaphore :: "fec_state \<Rightarrow> bool \<times> fec_state" where
  "xSemaphoreTake_xTxSemaphore s =
     (if xTxSemaphore s then (True, s\<lparr>xTxSemaphore := False\<rparr>) else (False, s))"

definition xSemaphoreGive_xTxSemaphore :: "fec_state \<Rightarrow> fec_state" where
  "xSemaphoreGive_xTxSemaphore s = s\<lparr>xTxSemaphore := True\<rparr>"

definition xSemaphoreGive_xFECSemaphore :: "fec_state \<Rightarrow> fec_state" where
  "xSemaphoreGive_xFECSemaphore s = s\<lparr>xFECSemaphore := True\<rparr>"

text \<open>
  Modelled from the spec: the kernel's scoped mutual-exclusion primitive (portmacro.h,
  outside the verified file), as a nesting count.
\<close>

definition taskENTER_CRITICAL :: "fec_state \<Rightarrow> fec_state" where
  "taskENTER_CRITICAL s = s\<lparr>uxCriticalNesting := Suc (uxCriticalNesting s)\<rparr>"

definition taskEXIT_CRITICAL :: "fec_state \<Rightarrow> fec_state" where
  "taskEXIT_CRITICAL s = s\<lparr>uxCriticalNesting := uxCriticalNesting s - 1\<rparr>"

section \<open>fec\_hash\_address\<close>

text \<open>
  The inner loop \<open>for(j=0; j<8; ++j)\<close> over the bits of \<open>byte\<close>, and the outer loop
  \<open>for(i=0; i<6; ++i)\<close> over \<open>addr\<close>. \<open>crc\<close> is \<open>unsigned portLONG\<close> (32 bits), \<open>byte\<close>
  is \<open>unsigned portCHAR\<close>.
\<close>

function hash_bits :: "nat \<Rightarrow> 8 word \<Rightarrow> 32 word \<Rightarrow> 32 word" where
  "hash_bits j byte crc =
     (if j < 8 then
        (if (ucast (byte AND 0x01) XOR (crc AND 0x01)) \<noteq> (0 :: 32 word)
         then hash_bits (Suc j) (drop_bit 1 byte) (drop_bit 1 crc XOR 0xEDB88320)
         else hash_bits (Suc j) (drop_bit 1 byte) (drop_bit 1 crc))
      else crc)"
  by pat_completeness auto
termination
  by (relation "measure (\<lambda>(j, byte, crc). 8 - j)") auto

function hash_bytes :: "nat \<Rightarrow> 8 word list \<Rightarrow> 32 word \<Rightarrow> 32 word" where
  "hash_bytes i addr crc =
     (if i < 6 then hash_bytes (Suc i) addr (hash_bits 0 (addr ! i) crc) else crc)"
  by pat_completeness auto
termination
  by (relation "measure (\<lambda>(i, addr, crc). 6 - i)") auto

declare hash_bits.simps [simp del]
declare hash_bytes.simps [simp del]

definition fec_hash_address :: "8 word list \<Rightarrow> 8 word" where
  "fec_hash_address addr = ucast (drop_bit 26 (hash_bytes 0 addr 0xFFFFFFFF))"

text \<open>
  The reference the specification words: the message is the bit sequence of the six
  bytes, each byte least significant bit first; a 32-bit register seeded with
  \<open>0xFFFFFFFF\<close> is shifted right once per message bit and the polynomial \<open>0xEDB88320\<close> is
  folded in when the message bit and the register's low bit differ; the hash is bits
  31..26 of the final register.
\<close>

definition message_bits :: "8 word list \<Rightarrow> bool list" where
  "message_bits bytes = concat (map (\<lambda>b. map (bit b) [0..<8]) bytes)"

definition crc32_shift :: "bool \<Rightarrow> 32 word \<Rightarrow> 32 word" where
  "crc32_shift m c = (if m \<noteq> bit c 0 then drop_bit 1 c XOR 0xEDB88320 else drop_bit 1 c)"

definition crc32_reference :: "8 word list \<Rightarrow> 32 word" where
  "crc32_reference bytes = fold crc32_shift (message_bits bytes) 0xFFFFFFFF"

definition computeHash_reference :: "8 word list \<Rightarrow> nat" where
  "computeHash_reference bytes = unat (crc32_reference bytes) div 2 ^ 26"

section \<open>prvInitialiseFECBuffers\<close>

text \<open>
  The alignment loop \<open>while( ( ( unsigned portLONG ) pcBufPointer & 0x0fUL ) != 0 )
  pcBufPointer++;\<close>, which the function runs three times.
\<close>

function align16 :: "addr \<Rightarrow> addr" where
  "align16 pcBufPointer =
     (if pcBufPointer AND 0x0f \<noteq> 0 then align16 (pcBufPointer + 1) else pcBufPointer)"
  by pat_completeness auto
termination
proof (relation "measure (\<lambda>p. (16 - p mod 16) mod 16)")
  show "wf (measure (\<lambda>p. (16 - p mod 16) mod 16))" by simp
next
  fix pcBufPointer :: nat
  assume a: "pcBufPointer AND 0x0f \<noteq> 0"
  define r where "r = pcBufPointer mod 16"
  have "pcBufPointer AND mask 4 = pcBufPointer mod 2 ^ 4"
    by (simp only: take_bit_eq_mask [symmetric] take_bit_eq_mod)
  then have r: "r < 16" "r \<noteq> 0"
    using a by (simp_all add: mask_eq_exp_minus_1 r_def)
  have s: "(pcBufPointer + 1) mod 16 = (r + 1) mod 16"
    by (simp add: r_def mod_simps)
  have "(16 - (pcBufPointer + 1) mod 16) mod 16 < (16 - pcBufPointer mod 16) mod 16"
  proof (cases "r = 15")
    case True
    then show ?thesis unfolding s r_def [symmetric] by simp
  next
    case False
    then have "r + 1 < 16" using r by simp
    then have "(r + 1) mod 16 = r + 1" by simp
    then show ?thesis unfolding s r_def [symmetric] using r by simp
  qed
  then show "(pcBufPointer + 1, pcBufPointer) \<in> measure (\<lambda>p. (16 - p mod 16) mod 16)"
    by simp
qed

declare align16.simps [simp del]

text \<open>The loop \<open>for( ux = 0; ux < fecNUM_FEC_TX_BUFFERS; ux++ )\<close>.\<close>

function init_tx_loop :: "fec_env \<Rightarrow> nat \<Rightarrow> FECBD list \<Rightarrow> FECBD list" where
  "init_tx_loop e ux ds =
     (if ux < fecNUM_FEC_TX_BUFFERS
      then init_tx_loop e (Suc ux)
             (ds[ux := (ds ! ux)\<lparr>status := TX_BD_TC e, data := NULL, length_bd := 0\<rparr>])
      else ds)"
  by pat_completeness auto
termination
  by (relation "measure (\<lambda>(e, ux, ds). fecNUM_FEC_TX_BUFFERS - ux)") auto

text \<open>
  The loop \<open>for( ux = 0; ux < configNUM_FEC_RX_BUFFERS; ux++ )\<close>, which carries
  \<open>pcBufPointer\<close>. The \<open>length\<close> field is 16 bits wide: the assignment truncates.
\<close>

function init_rx_loop :: "fec_env \<Rightarrow> nat \<Rightarrow> addr \<Rightarrow> FECBD list \<Rightarrow> FECBD list" where
  "init_rx_loop e ux pcBufPointer ds =
     (if ux < configNUM_FEC_RX_BUFFERS e
      then init_rx_loop e (Suc ux) (pcBufPointer + configFEC_BUFFER_SIZE e)
             (ds[ux := (ds ! ux)\<lparr>status := RX_BD_E e,
                                 length_bd := of_nat (configFEC_BUFFER_SIZE e),
                                 data := pcBufPointer\<rparr>])
      else ds)"
  by pat_completeness auto
termination
  by (relation "measure (\<lambda>(e, ux, p, ds). configNUM_FEC_RX_BUFFERS e - ux)") auto

declare init_tx_loop.simps [simp del]
declare init_rx_loop.simps [simp del]

text \<open>\<open>ds[ i ].status |= flag\<close>.\<close>

definition status_or :: "nat \<Rightarrow> 16 word \<Rightarrow> FECBD list \<Rightarrow> FECBD list" where
  "status_or i flag ds = ds[i := (ds ! i)\<lparr>status := status (ds ! i) OR flag\<rparr>]"

definition prvInitialiseFECBuffers :: "fec_env \<Rightarrow> fec_state \<Rightarrow> fec_state" where
  "prvInitialiseFECBuffers e s =
     (let txp = align16 (xFECTxDescriptors_unaligned e);
          rxp = align16 (xFECRxDescriptors_unaligned e);
          tx = init_tx_loop e 0 (xFECTxDescriptors s);
          pcBufPointer = align16 (ucFECRxBuffers e);
          rx = init_rx_loop e 0 pcBufPointer (xFECRxDescriptors s);
          tx' = status_or (fecNUM_FEC_TX_BUFFERS - 1) (TX_BD_W e) tx;
          rx' = status_or (configNUM_FEC_RX_BUFFERS e - 1) (RX_BD_W e) rx
      in s\<lparr>xFECTxDescriptors_ptr := txp, xFECRxDescriptors_ptr := rxp,
            xFECTxDescriptors := tx', xFECRxDescriptors := rx',
            uxNextRxBuffer := 0\<rparr>)"

section \<open>prvResetFEC\<close>

text \<open>
  \<open>xCalledFromISR\<close> is \<open>pdTRUE\<close> or \<open>pdFALSE\<close>. The ten \<open>NOP\<close>s between the two
  writes to the control register change no state.
\<close>

definition prvResetFEC :: "fec_env \<Rightarrow> bool \<Rightarrow> fec_state \<Rightarrow> fec_state" where
  "prvResetFEC e xCalledFromISR s =
     (let s1 = (if \<not> xCalledFromISR then taskENTER_CRITICAL s else s);
          s2 = prvInitialiseFECBuffers e s1;
          s3 = reg_write MCF_FEC_ECR (MCF_FEC_ECR_RESET e) s2;
          s4 = reg_write MCF_FEC_ECR (MCF_FEC_ECR_ETHER_EN e) s3;
          s5 = reg_write MCF_FEC_RDAR (MCF_FEC_RDAR_R_DES_ACTIVE e) s4
      in (if \<not> xCalledFromISR then taskEXIT_CRITICAL s5 else s5))"

section \<open>usGetFECRxData, vDiscardRxData, vSendBufferToFEC\<close>

definition usGetFECRxData :: "fec_env \<Rightarrow> fec_state \<Rightarrow> 16 word \<times> fec_state" where
  "usGetFECRxData e s =
     (let usLen = length_bd (xFECRxDescriptors s ! uxNextRxBuffer s)
      in if usLen \<noteq> 0 \<and> status (xFECRxDescriptors s ! uxNextRxBuffer s) AND RX_BD_E e = 0
         then (usLen, s\<lparr>uip_buf := data (xFECRxDescriptors s ! uxNextRxBuffer s)\<rparr>)
         else (0, s))"

definition vDiscardRxData :: "fec_env \<Rightarrow> fec_state \<Rightarrow> fec_state" where
  "vDiscardRxData e s =
     (let s1 = s\<lparr>xFECRxDescriptors :=
                   status_or (uxNextRxBuffer s) (RX_BD_E e) (xFECRxDescriptors s)\<rparr>;
          s2 = reg_write MCF_FEC_RDAR (MCF_FEC_RDAR_R_DES_ACTIVE e) s1;
          s3 = s2\<lparr>uxNextRxBuffer := uxNextRxBuffer s2 + 1\<rparr>
      in if uxNextRxBuffer s3 \<ge> configNUM_FEC_RX_BUFFERS e
         then s3\<lparr>uxNextRxBuffer := 0\<rparr> else s3)"

definition vSendBufferToFEC :: "fec_env \<Rightarrow> fec_state \<Rightarrow> fec_state" where
  "vSendBufferToFEC e s =
     (case xSemaphoreTake_xTxSemaphore s of
        (True, s0) \<Rightarrow>
          if status (xFECTxDescriptors s0 ! fecTX_BUFFER_TO_USE) AND TX_BD_R e \<noteq> 0
          then xSemaphoreGive_xTxSemaphore (prvResetFEC e False s0)
          else
            (let tx = xFECTxDescriptors s0;
                 tx1 = tx[fecTX_BUFFER_TO_USE :=
                          (tx ! fecTX_BUFFER_TO_USE)\<lparr>length_bd := uip_len s0\<rparr>];
                 tx2 = status_or fecTX_BUFFER_TO_USE (TX_BD_R e OR TX_BD_L e) tx1;
                 tx3 = tx2[fecTX_BUFFER_TO_USE :=
                          (tx2 ! fecTX_BUFFER_TO_USE)\<lparr>data := uip_buf s0\<rparr>];
                 s1 = s0\<lparr>xFECTxDescriptors := tx3\<rparr>;
                 s2 = s1\<lparr>uxIndexToBufferOwner := uxNextRxBuffer s1\<rparr>;
                 s3 = s2\<lparr>uxNextRxBuffer := uxNextRxBuffer s2 + 1\<rparr>;
                 s4 = (if uxNextRxBuffer s3 \<ge> configNUM_FEC_RX_BUFFERS e
                       then s3\<lparr>uxNextRxBuffer := 0\<rparr> else s3)
             in reg_write MCF_FEC_TDAR (MCF_FEC_TDAR_X_DES_ACTIVE e) s4)
      | (False, s0) \<Rightarrow> vDiscardRxData e s0)"

section \<open>vFEC\_ISR\<close>

text \<open>
  \<open>xSemaphoreGiveFromISR\<close> leaves a token; whether a higher priority task was woken and
  the context switch \<open>portEND_SWITCHING_ISR\<close> asks for belong to the kernel and change
  none of the driver's variables.
\<close>

definition vFEC_ISR :: "fec_env \<Rightarrow> fec_state \<Rightarrow> fec_state" where
  "vFEC_ISR e s =
     (let ulEvent = regs s MCF_FEC_EIR AND regs s MCF_FEC_EIMR;
          s1 = reg_write MCF_FEC_EIR ulEvent s;
          s2 = (if ulEvent AND MCF_FEC_EIR_RXB e \<noteq> 0 \<or> ulEvent AND MCF_FEC_EIR_RXF e \<noteq> 0
                then xSemaphoreGive_xFECSemaphore s1 else s1);
          s3 = (if ulEvent AND (MCF_FEC_EIR_UN e OR MCF_FEC_EIR_RL e OR MCF_FEC_EIR_LC e
                               OR MCF_FEC_EIR_EBERR e OR MCF_FEC_EIR_BABT e
                               OR MCF_FEC_EIR_BABR e OR MCF_FEC_EIR_HBERR e) \<noteq> 0
                then prvResetFEC e True s2 else s2)
      in if ulEvent AND MCF_FEC_EIR_TXF e \<noteq> 0 \<or> ulEvent AND MCF_FEC_EIR_TXB e \<noteq> 0
         then xSemaphoreGive_xTxSemaphore
                (reg_write MCF_FEC_RDAR (MCF_FEC_RDAR_R_DES_ACTIVE e)
                   (s3\<lparr>xFECRxDescriptors :=
                         status_or (uxIndexToBufferOwner s3) (RX_BD_E e)
                           (xFECRxDescriptors s3)\<rparr>))
         else s3)"

section \<open>fec\_mii\_read\<close>

text \<open>
  The event register is volatile: the device sets the completion flag on its own. What
  the \<open>timeout\<close>-th poll reads is \<open>eir timeout\<close>, and what the management frame register
  holds when the poll loop is over is \<open>mmfr\<close>; both are inputs. The loop returns the final
  value of \<open>timeout\<close>. \<open>vTaskDelay\<close> between polls changes none of the driver's
  variables.
\<close>

function mii_poll :: "fec_env \<Rightarrow> (nat \<Rightarrow> 32 word) \<Rightarrow> nat \<Rightarrow> nat" where
  "mii_poll e eir timeout =
     (if timeout < fecMAX_POLLS
      then (if eir timeout AND MCF_FEC_EIR_MII e \<noteq> 0 then timeout
            else mii_poll e eir (Suc timeout))
      else timeout)"
  by pat_completeness auto
termination
  by (relation "measure (\<lambda>(e, eir, timeout). fecMAX_POLLS - timeout)") auto

declare mii_poll.simps [simp del]

text \<open>
  \<open>data\<close> is the value of the caller's variable that the pointer argument addresses; the
  result carries \<open>iReturn\<close>, that variable's value after the call, and the state.
\<close>

definition fec_mii_read ::
  "fec_env \<Rightarrow> (nat \<Rightarrow> 32 word) \<Rightarrow> 32 word \<Rightarrow> 32 word \<Rightarrow> 32 word \<Rightarrow> 16 word \<Rightarrow> fec_state
     \<Rightarrow> int \<times> 16 word \<times> fec_state" where
  "fec_mii_read e eir mmfr phy_addr reg_addr data0 s =
     (let s1 = reg_write MCF_FEC_EIR (MCF_FEC_EIR_MII e) s;
          eimr = regs s1 MCF_FEC_EIMR;
          s2 = reg_write MCF_FEC_EIMR (regs s1 MCF_FEC_EIMR AND NOT (MCF_FEC_EIMR_MII e)) s1;
          s3 = reg_write MCF_FEC_MMFR
                 (MCF_FEC_MMFR_ST_01 e OR MCF_FEC_MMFR_OP_READ e OR MCF_FEC_MMFR_PA e phy_addr
                    OR MCF_FEC_MMFR_RA e reg_addr OR MCF_FEC_MMFR_TA_10 e) s2;
          timeout = mii_poll e eir 0;
          (iReturn, data1) =
             (if timeout = fecMAX_POLLS then (0, data0)
              else (1, ucast (mmfr AND 0x0000FFFF)));
          s4 = reg_write MCF_FEC_EIR (MCF_FEC_EIR_MII e) s3;
          s5 = reg_write MCF_FEC_EIMR eimr s4
      in (iReturn, data1, s5))"

section \<open>fec\_set\_address and prvEnableFECInterrupts\<close>

text \<open>
  \<open>pa\<close> points to the six bytes of the station address. The shifted bytes are combined
  in 32 bits; the hash bit is \<open>1 << crc\<close> or \<open>1 << (crc - 32)\<close>.
\<close>

definition fec_set_address :: "8 word list \<Rightarrow> fec_state \<Rightarrow> fec_state" where
  "fec_set_address pa s =
     (let s1 = reg_write MCF_FEC_PALR
                 (push_bit 24 (ucast (pa ! 0)) OR push_bit 16 (ucast (pa ! 1))
                    OR push_bit 8 (ucast (pa ! 2)) OR push_bit 0 (ucast (pa ! 3))) s;
          s2 = reg_write MCF_FEC_PAUR
                 (push_bit 24 (ucast (pa ! 4)) OR push_bit 16 (ucast (pa ! 5))) s1;
          crc = fec_hash_address pa
      in if crc \<ge> 32
         then reg_write MCF_FEC_IAUR
                (regs s2 MCF_FEC_IAUR OR push_bit (unat (crc - 32)) 1) s2
         else reg_write MCF_FEC_IALR (regs s2 MCF_FEC_IALR OR push_bit (unat crc) 1) s2)"

definition uxFirstFECVector :: nat where
  "uxFirstFECVector = 23"

definition uxLastFECVector :: nat where
  "uxLastFECVector = 35"

text \<open>The loop \<open>for( ux = uxFirstFECVector; ux <= uxLastFECVector; ux++ )\<close>.\<close>

function icr_loop :: "fec_init_env \<Rightarrow> nat \<Rightarrow> fec_state \<Rightarrow> fec_state" where
  "icr_loop b ux s =
     (if ux \<le> uxLastFECVector
      then icr_loop b (Suc ux)
             (reg_write (MCF_INTC0_ICR ux)
                (MCF_INTC_ICR_IL b (configFEC_INTERRUPT_PRIORITY b)) s)
      else s)"
  by pat_completeness auto
termination
  by (relation "measure (\<lambda>(b, ux, s). Suc uxLastFECVector - ux)") auto

declare icr_loop.simps [simp del]

definition prvEnableFECInterrupts :: "fec_init_env \<Rightarrow> fec_state \<Rightarrow> fec_state" where
  "prvEnableFECInterrupts b s =
     (let s1 = icr_loop b uxFirstFECVector s;
          s2 = reg_write MCF_INTC0_IMRH
                 (regs s1 MCF_INTC0_IMRH AND
                    NOT (MCF_INTC_IMRH_INT_MASK33 b OR MCF_INTC_IMRH_INT_MASK34 b
                         OR MCF_INTC_IMRH_INT_MASK35 b)) s1;
          s3 = reg_write MCF_INTC0_IMRL
                 (regs s2 MCF_INTC0_IMRL AND
                    NOT (MCF_INTC_IMRL_INT_MASK25 b OR MCF_INTC_IMRL_INT_MASK26 b
                         OR MCF_INTC_IMRL_INT_MASK27 b OR MCF_INTC_IMRL_INT_MASK28 b
                         OR MCF_INTC_IMRL_INT_MASK29 b OR MCF_INTC_IMRL_INT_MASK30 b
                         OR MCF_INTC_IMRL_INT_MASK31 b OR MCF_INTC_IMRL_INT_MASK23 b
                         OR MCF_INTC_IMRL_INT_MASK24 b OR MCF_INTC_IMRL_MASKALL b)) s2;
          s4 = reg_write MCF_FEC_EIR (MCF_FEC_EIR_CLEAR_ALL b) s3
      in reg_write MCF_FEC_EIMR (MCF_FEC_EIMR_UNMASK_ALL b) s4)"

section \<open>vInitFEC, from the link partner's abilities to the end\<close>

text \<open>The macro of FEC.c, line 49.\<close>

definition MCF_FEC_RCR_MAX_FL :: "32 word \<Rightarrow> 32 word" where
  "MCF_FEC_RCR_MAX_FL x = push_bit 0x10 (x AND 0x7FF)"

text \<open>
  The condition of the first \<open>if\<close> after the read (line 444). Both of its branches are
  empty in the source: they hold the comments "Speed is 100." and "Speed is 10." only.
\<close>

definition speed_is_100 :: "fec_env \<Rightarrow> 16 word \<Rightarrow> bool" where
  "speed_is_100 e usData \<longleftrightarrow>
     usData AND PHY_ANLPAR_100BTX_FDX e \<noteq> 0 \<or> usData AND PHY_ANLPAR_100BTX e \<noteq> 0"

text \<open>
  Lines 441 to 503 of FEC.c: everything \<open>vInitFEC\<close> does once autonegotiation has
  completed, to its last statement. \<open>usData0\<close> is what the local \<open>usData\<close> holds from
  the status poll before; \<open>eir\<close> and \<open>mmfr\<close> are what the device shows during the read
  of the link partner ability register; the result of that read is not looked at, as in
  the source. The block under \<open>#if( configUSE_PROMISCUOUS_MODE == 1 )\<close> is compiled
  in when the constant is 1.
\<close>

definition vInitFEC_link_up ::
  "fec_env \<Rightarrow> fec_init_env \<Rightarrow> (nat \<Rightarrow> 32 word) \<Rightarrow> 32 word \<Rightarrow> 16 word \<Rightarrow> fec_state
     \<Rightarrow> fec_state" where
  "vInitFEC_link_up e b eir mmfr usData0 s =
     (let r = fec_mii_read e eir mmfr (configPHY_ADDRESS b) (PHY_ANLPAR b) usData0 s;
          usData = fst (snd r);
          s1 = snd (snd r);
          s2 = (if speed_is_100 e usData then s1 else s1);
          s3 = (if usData AND PHY_ANLPAR_100BTX_FDX e \<noteq> 0
                   \<or> usData AND PHY_ANLPAR_10BTX_FDX e \<noteq> 0
                then
                  (let t = reg_write MCF_FEC_RCR
                             (regs s2 MCF_FEC_RCR AND NOT (MCF_FEC_RCR_DRT e)) s2
                   in reg_write MCF_FEC_TCR (regs t MCF_FEC_TCR OR MCF_FEC_TCR_FDEN e) t)
                else
                  (let t = reg_write MCF_FEC_RCR
                             (regs s2 MCF_FEC_RCR OR MCF_FEC_RCR_DRT e) s2
                   in reg_write MCF_FEC_TCR
                        (regs t MCF_FEC_TCR AND NOT (MCF_FEC_TCR_FDEN e)) t));
          s4 = reg_write MCF_FEC_IALR 0 s3;
          s5 = reg_write MCF_FEC_IAUR 0 s4;
          s6 = reg_write MCF_FEC_GALR 0 s5;
          s7 = reg_write MCF_FEC_GAUR 0 s6;
          s8 = fec_set_address
                 [configMAC_0 b, configMAC_1 b, configMAC_2 b, configMAC_3 b,
                  configMAC_4 b, configMAC_5 b] s7;
          s9 = reg_write MCF_FEC_EMRBR
                 (ucast (of_nat (configFEC_BUFFER_SIZE e) :: 16 word)) s8;
          s10 = reg_write MCF_FEC_ERDSR (of_nat (xFECRxDescriptors_ptr s9)) s9;
          s11 = reg_write MCF_FEC_ETSDR (of_nat (xFECTxDescriptors_ptr s10)) s10;
          s12 = reg_write MCF_FEC_EIMR (- 1) s11;
          s13 = reg_write MCF_FEC_EIR (- 1) s12;
          s14 = reg_write MCF_FEC_RCR
                  (MCF_FEC_RCR_MAX_FL (ETH_MAX_FRM b) OR MCF_FEC_RCR_FCE b) s13;
          s15 = reg_write MCF_FEC_RCR
                  (regs s14 MCF_FEC_RCR OR MCF_FEC_RCR_MII_MODE b) s14;
          s16 = (if configUSE_PROMISCUOUS_MODE b = 1
                 then reg_write MCF_FEC_RCR (regs s15 MCF_FEC_RCR OR MCF_FEC_RCR_PROM b) s15
                 else s15);
          s17 = prvEnableFECInterrupts b s16;
          s18 = reg_write MCF_FEC_ECR (MCF_FEC_ECR_ETHER_EN e) s17
      in reg_write MCF_FEC_RDAR (MCF_FEC_RDAR_R_DES_ACTIVE e) s18)"

section \<open>Ownership, ring well-formedness, and an instance for evaluation\<close>

text \<open>
  A receive descriptor is owned by the device while its empty bit is set, a transmit
  descriptor while its ready bit is set; a descriptor carries the wrap marker when the
  wrap bit is set.
\<close>

definition rx_hw_owned :: "fec_env \<Rightarrow> FECBD \<Rightarrow> bool" where
  "rx_hw_owned e d \<longleftrightarrow> status d AND RX_BD_E e \<noteq> 0"

definition tx_hw_owned :: "fec_env \<Rightarrow> FECBD \<Rightarrow> bool" where
  "tx_hw_owned e d \<longleftrightarrow> status d AND TX_BD_R e \<noteq> 0"

definition rx_wrap :: "fec_env \<Rightarrow> FECBD \<Rightarrow> bool" where
  "rx_wrap e d \<longleftrightarrow> status d AND RX_BD_W e \<noteq> 0"

definition tx_wrap :: "fec_env \<Rightarrow> FECBD \<Rightarrow> bool" where
  "tx_wrap e d \<longleftrightarrow> status d AND TX_BD_W e \<noteq> 0"

text \<open>
  The rings are arrays of fixed size and the two indices address the receive ring: what
  every function of the driver relies on when it indexes a ring.
\<close>

definition ring_inv :: "fec_env \<Rightarrow> fec_state \<Rightarrow> bool" where
  "ring_inv e s \<longleftrightarrow>
     length (xFECTxDescriptors s) = fecNUM_FEC_TX_BUFFERS \<and>
     length (xFECRxDescriptors s) = configNUM_FEC_RX_BUFFERS e \<and>
     uxNextRxBuffer s < configNUM_FEC_RX_BUFFERS e \<and>
     uxIndexToBufferOwner s < configNUM_FEC_RX_BUFFERS e"

text \<open>
  What the descriptor rings need of the flag bits of fecbd.h: the receive ownership bit
  and both wrap bits are not zero, the receive wrap bit is apart from the ownership bit,
  and a freshly initialised transmit descriptor does not read as ready.
\<close>

definition bd_flags_ok :: "fec_env \<Rightarrow> bool" where
  "bd_flags_ok e \<longleftrightarrow>
     RX_BD_E e \<noteq> 0 \<and> RX_BD_W e \<noteq> 0 \<and> RX_BD_E e AND RX_BD_W e = 0 \<and>
     TX_BD_W e \<noteq> 0 \<and> (TX_BD_TC e OR TX_BD_W e) AND TX_BD_R e = 0"

text \<open>
  An instance for evaluating the functions: ring depth 3, buffers of 1520 bytes, and the
  bit positions of the MCF5223x descriptor and register layout.
\<close>

definition demo_env :: fec_env where
  "demo_env =
     \<lparr>configNUM_FEC_RX_BUFFERS = 3, configFEC_BUFFER_SIZE = 1520,
      xFECTxDescriptors_unaligned = 0x20000004, xFECRxDescriptors_unaligned = 0x2000001C,
      ucFECRxBuffers = 0x20000049,
      TX_BD_R = 0x8000, TX_BD_W = 0x2000, TX_BD_L = 0x0800, TX_BD_TC = 0x0400,
      RX_BD_E = 0x8000, RX_BD_W = 0x2000,
      MCF_FEC_EIR_MII = 0x00800000, MCF_FEC_EIR_RXB = 0x01000000,
      MCF_FEC_EIR_RXF = 0x02000000, MCF_FEC_EIR_TXB = 0x04000000,
      MCF_FEC_EIR_TXF = 0x08000000, MCF_FEC_EIR_UN = 0x00080000,
      MCF_FEC_EIR_RL = 0x00100000, MCF_FEC_EIR_LC = 0x00200000,
      MCF_FEC_EIR_EBERR = 0x00400000, MCF_FEC_EIR_BABT = 0x20000000,
      MCF_FEC_EIR_BABR = 0x40000000, MCF_FEC_EIR_HBERR = 0x80000000,
      MCF_FEC_EIMR_MII = 0x00800000,
      MCF_FEC_ECR_RESET = 0x00000001, MCF_FEC_ECR_ETHER_EN = 0x00000002,
      MCF_FEC_RDAR_R_DES_ACTIVE = 0x01000000, MCF_FEC_TDAR_X_DES_ACTIVE = 0x01000000,
      MCF_FEC_RCR_DRT = 0x00000002, MCF_FEC_TCR_FDEN = 0x00000004,
      MCF_FEC_MMFR_ST_01 = 0x40000000, MCF_FEC_MMFR_OP_READ = 0x20000000,
      MCF_FEC_MMFR_TA_10 = 0x00020000,
      MCF_FEC_MMFR_PA = (\<lambda>x. push_bit 23 (x AND 0x1F)),
      MCF_FEC_MMFR_RA = (\<lambda>x. push_bit 18 (x AND 0x1F)),
      PHY_ANLPAR_100BTX_FDX = 0x0100, PHY_ANLPAR_100BTX = 0x0080,
      PHY_ANLPAR_10BTX_FDX = 0x0040\<rparr>"

text \<open>The bring-up constants of that instance, and a device that answers at the third poll.\<close>

definition demo_init :: fec_init_env where
  "demo_init =
     \<lparr>configPHY_ADDRESS = 1, PHY_ANLPAR = 5,
      configMAC_0 = 0x00, configMAC_1 = 0x11, configMAC_2 = 0x22, configMAC_3 = 0x33,
      configMAC_4 = 0x44, configMAC_5 = 0x55,
      ETH_MAX_FRM = 1518,
      MCF_FEC_RCR_FCE = 0x00000020, MCF_FEC_RCR_MII_MODE = 0x00000004,
      MCF_FEC_RCR_PROM = 0x00000008, configUSE_PROMISCUOUS_MODE = 0,
      MCF_FEC_EIR_CLEAR_ALL = 0xFFF80000, MCF_FEC_EIMR_UNMASK_ALL = 0xFFF80000,
      MCF_INTC_ICR_IL = (\<lambda>x. push_bit 3 (x AND 0x7)), configFEC_INTERRUPT_PRIORITY = 2,
      MCF_INTC_IMRH_INT_MASK33 = 0x00000002, MCF_INTC_IMRH_INT_MASK34 = 0x00000004,
      MCF_INTC_IMRH_INT_MASK35 = 0x00000008,
      MCF_INTC_IMRL_INT_MASK23 = 0x00800000, MCF_INTC_IMRL_INT_MASK24 = 0x01000000,
      MCF_INTC_IMRL_INT_MASK25 = 0x02000000, MCF_INTC_IMRL_INT_MASK26 = 0x04000000,
      MCF_INTC_IMRL_INT_MASK27 = 0x08000000, MCF_INTC_IMRL_INT_MASK28 = 0x10000000,
      MCF_INTC_IMRL_INT_MASK29 = 0x20000000, MCF_INTC_IMRL_INT_MASK30 = 0x40000000,
      MCF_INTC_IMRL_INT_MASK31 = 0x80000000, MCF_INTC_IMRL_MASKALL = 0x00000001\<rparr>"

definition demo_eir :: "nat \<Rightarrow> 32 word" where
  "demo_eir i = (if i = 2 then 0x00800000 else 0)"

text \<open>
  A state of that instance in the middle of operation: slot 1 holds a received frame of
  60 bytes, the cursor is on it, the transmit descriptor is idle and the transmit token
  is there. \<open>demo_busy\<close> is the same state with the transmit descriptor still ready.
\<close>

definition demo_state :: fec_state where
  "demo_state =
     \<lparr>xFECSemaphore = False, xTxSemaphore = True, uxCriticalNesting = 0,
      uip_buf = NULL, uip_len = 60,
      xFECTxDescriptors_ptr = 0x20000010, xFECRxDescriptors_ptr = 0x20000020,
      xFECTxDescriptors = [\<lparr>status = 0x2400, length_bd = 0, data = NULL\<rparr>],
      xFECRxDescriptors =
        [\<lparr>status = 0x8000, length_bd = 1520, data = 0x20000050\<rparr>,
         \<lparr>status = 0x0800, length_bd = 60, data = 0x20000640\<rparr>,
         \<lparr>status = 0xA000, length_bd = 1520, data = 0x20000C30\<rparr>],
      uxNextRxBuffer = 1, uxIndexToBufferOwner = 0,
      regs = (\<lambda>r. 0)(MCF_FEC_EIMR := 0xFFFFFFFF, MCF_FEC_RCR := 0x05EE0024,
                       MCF_FEC_TCR := 0x00000004),
      mmio = []\<rparr>"

definition demo_busy :: fec_state where
  "demo_busy =
     demo_state\<lparr>xFECTxDescriptors :=
                  [\<lparr>status = 0xAC00, length_bd = 60, data = 0x20000050\<rparr>]\<rparr>"




section \<open>The hash follows the reference CRC\<close>

lemma low_bits_differ:
  "(ucast (byte AND 0x01) XOR (crc AND 0x01) \<noteq> (0 :: 32 word)) \<longleftrightarrow> (bit (byte :: 8 word) 0 \<noteq> bit crc 0)"
proof -
  have a: "(ucast (byte AND 1) :: 32 word) = (if bit byte 0 then 1 else 0)"
    by (simp add: and_one_eq mod_2_eq_odd bit_0)
  have b: "crc AND 1 = (if bit crc 0 then 1 else 0)"
    by (simp add: and_one_eq mod_2_eq_odd bit_0)
  show ?thesis unfolding a b by simp
qed

lemma bits_from: "map (bit (b :: 8 word)) [0..<Suc n] = bit b 0 # map (bit (drop_bit 1 b)) [0..<n]"
  by (simp add: upt_conv_Cons map_Suc_upt[symmetric] bit_drop_bit_eq del: upt_Suc)

lemma hash_bits_fold:
  "j \<le> 8 \<Longrightarrow> hash_bits j byte crc = fold crc32_shift (map (bit byte) [0..<8 - j]) crc"
proof (induction j byte crc rule: hash_bits.induct)
  case (1 j byte crc)
  show ?case
  proof (cases "j < 8")
    case False
    with "1.prems" show ?thesis by (simp add: hash_bits.simps)
  next
    case True
    then have n: "8 - j = Suc (8 - Suc j)" by simp
    show ?thesis
    proof (cases "bit byte 0 \<noteq> bit crc 0")
      case d: True
      then have c: "ucast (byte AND 0x01) XOR (crc AND 0x01) \<noteq> (0 :: 32 word)"
        using low_bits_differ by blast
      have "hash_bits j byte crc = hash_bits (Suc j) (drop_bit 1 byte) (drop_bit 1 crc XOR 0xEDB88320)"
        using True c by (subst hash_bits.simps) simp
      also have "\<dots> = fold crc32_shift (map (bit (drop_bit 1 byte)) [0..<8 - Suc j]) (drop_bit 1 crc XOR 0xEDB88320)"
        using "1.IH"(1)[OF True c] True by simp
      also have "\<dots> = fold crc32_shift (map (bit byte) [0..<8 - j]) crc"
        unfolding n bits_from using d by (simp add: crc32_shift_def)
      finally show ?thesis .
    next
      case d: False
      then have c: "\<not> ucast (byte AND 0x01) XOR (crc AND 0x01) \<noteq> (0 :: 32 word)"
        using low_bits_differ by blast
      have "hash_bits j byte crc = hash_bits (Suc j) (drop_bit 1 byte) (drop_bit 1 crc)"
        using True c by (subst hash_bits.simps) simp
      also have "\<dots> = fold crc32_shift (map (bit (drop_bit 1 byte)) [0..<8 - Suc j]) (drop_bit 1 crc)"
        using "1.IH"(2)[OF True c] True by simp
      also have "\<dots> = fold crc32_shift (map (bit byte) [0..<8 - j]) crc"
        unfolding n bits_from using d by (simp add: crc32_shift_def)
      finally show ?thesis .
    qed
  qed
qed

lemma hash_bytes_fold:
  "i \<le> 6 \<Longrightarrow> length addr = 6 \<Longrightarrow>
   hash_bytes i addr crc = fold crc32_shift (message_bits (drop i addr)) crc"
proof (induction i addr crc rule: hash_bytes.induct)
  case (1 i addr crc)
  show ?case
  proof (cases "i < 6")
    case False
    with "1.prems" show ?thesis by (simp add: hash_bytes.simps message_bits_def)
  next
    case True
    then have d: "drop i addr = addr ! i # drop (Suc i) addr"
      using "1.prems" by (simp add: Cons_nth_drop_Suc)
    have "hash_bytes i addr crc = hash_bytes (Suc i) addr (hash_bits 0 (addr ! i) crc)"
      using True by (subst hash_bytes.simps) simp
    also have "\<dots> = fold crc32_shift (message_bits (drop (Suc i) addr)) (hash_bits 0 (addr ! i) crc)"
      using "1.IH"[OF True] True "1.prems" by simp
    also have "\<dots> = fold crc32_shift (message_bits (drop i addr)) crc"
      unfolding d by (simp add: message_bits_def hash_bits_fold)
    finally show ?thesis .
  qed
qed

lemma unat_top6: "unat (drop_bit 26 (w :: 32 word)) = unat w div 2 ^ 26"
proof -
  have "unat (drop_bit 26 w) = drop_bit 26 (unat w)" by (rule unat_drop_bit_eq)
  also have "\<dots> = unat w div 2 ^ 26" by (rule drop_bit_eq_div)
  finally show ?thesis .
qed

lemma top6_bound: "unat (w :: 32 word) div 2 ^ 26 < 64"
proof -
  have "(unsigned w :: nat) < 2 ^ LENGTH(32)" by (rule unsigned_less)
  then have "unat w < 2 ^ 32" by simp
  then show ?thesis by simp
qed

lemma top6_cast: "unat (ucast (drop_bit 26 (w :: 32 word)) :: 8 word) = unat w div 2 ^ 26"
proof -
  have "unat (ucast (drop_bit 26 w) :: 8 word) = take_bit 8 (unat (drop_bit 26 w))"
    by (simp add: unsigned_ucast_eq)
  also have "\<dots> = unat (drop_bit 26 w)"
    using top6_bound[of w] unfolding unat_top6 by (simp add: take_bit_nat_eq_self_iff)
  finally show ?thesis unfolding unat_top6 .
qed

text \<open>
  C8: for every 6-byte address, \<open>fec_hash_address\<close> returns bits 31..26 of the CRC-32
  computed bit-serially, least significant bit of each byte first, with polynomial
  \<open>0xEDB88320\<close> and seed \<open>0xFFFFFFFF\<close>, as the reference definition words it; the result
  lies in 0..63. Being a function of the six bytes alone, it returns the same index for
  the same address every time.
\<close>

theorem fec_hash_address_reference:
  assumes "length addr = 6"
  shows "unat (fec_hash_address addr) = computeHash_reference addr \<and>
         unat (fec_hash_address addr) < 64"
proof -
  have a: "unat (fec_hash_address addr) = unat (hash_bytes 0 addr 0xFFFFFFFF) div 2 ^ 26"
    unfolding fec_hash_address_def by (rule top6_cast)
  have b: "hash_bytes 0 addr 0xFFFFFFFF = crc32_reference addr"
    using hash_bytes_fold [of 0 addr] assms by (simp add: crc32_reference_def)
  show ?thesis unfolding a computeHash_reference_def b using top6_bound by simp
qed

text \<open>The fixed address \<open>00:11:22:33:44:55\<close> hashes to index 44.\<close>

theorem fec_hash_address_reference_witness:
  "length [0x00, 0x11, 0x22, 0x33, 0x44, 0x55 :: 8 word] = 6 \<and>
   fec_hash_address [0x00, 0x11, 0x22, 0x33, 0x44, 0x55] = 44 \<and>
   computeHash_reference [0x00, 0x11, 0x22, 0x33, 0x44, 0x55] = 44 \<and>
   unat (fec_hash_address [0x00, 0x11, 0x22, 0x33, 0x44, 0x55]) < 64"
proof -
  have v: "fec_hash_address [0x00, 0x11, 0x22, 0x33, 0x44, 0x55] = 44"
    by (simp add: fec_hash_address_def hash_bytes.simps hash_bits.simps)
  show ?thesis
    using fec_hash_address_reference [of "[0x00, 0x11, 0x22, 0x33, 0x44, 0x55]"] v
    by simp
qed

section \<open>Ring initialisation\<close>

lemma align16_eq: "align16 p = p + (16 - p mod 16) mod 16"
proof (induction p rule: align16.induct)
  case (1 p)
  have m: "p AND 0x0f = p mod 16"
  proof -
    have "p AND mask 4 = p mod 2 ^ 4"
      by (simp only: take_bit_eq_mask [symmetric] take_bit_eq_mod)
    then show ?thesis by (simp add: mask_eq_exp_minus_1)
  qed
  show ?case
  proof (cases "p mod 16 = 0")
    case True
    then show ?thesis using m by (subst align16.simps) simp
  next
    case False
    define r where "r = p mod 16"
    have r: "r < 16" "r \<noteq> 0" using False by (simp_all add: r_def)
    have s: "(p + 1) mod 16 = (r + 1) mod 16" by (simp add: r_def mod_simps)
    have c: "p AND 0x0f \<noteq> 0" using False m by simp
    have "align16 p = align16 (p + 1)" using c by (subst align16.simps) simp
    also have "\<dots> = p + 1 + (16 - (p + 1) mod 16) mod 16" using "1.IH" [OF c] .
    also have "\<dots> = p + (16 - r) mod 16"
    proof (cases "r = 15")
      case True
      then show ?thesis unfolding s by simp
    next
      case False
      then have "r + 1 < 16" using r by simp
      then have "(r + 1) mod 16 = r + 1" by simp
      then show ?thesis unfolding s using r by simp
    qed
    finally show ?thesis by (simp add: r_def)
  qed
qed

lemma align16_bounds: "p \<le> align16 p \<and> align16 p < p + 16"
  unfolding align16_eq by simp

lemma FECBD_all_fields:
  "(d :: FECBD)\<lparr>status := a, data := b, length_bd := c\<rparr> = \<lparr>status = a, length_bd = c, data = b\<rparr>"
  "(d :: FECBD)\<lparr>status := a, length_bd := c, data := b\<rparr> = \<lparr>status = a, length_bd = c, data = b\<rparr>"
  by (cases d, simp)+

lemma length_init_tx_loop [simp]: "length (init_tx_loop e ux ds) = length ds"
  by (induction e ux ds rule: init_tx_loop.induct) (subst init_tx_loop.simps, simp)

lemma length_init_rx_loop [simp]: "length (init_rx_loop e ux p ds) = length ds"
  by (induction e ux p ds rule: init_rx_loop.induct) (subst init_rx_loop.simps, simp)

lemma init_tx_loop_nth:
  "i < length ds \<Longrightarrow>
   init_tx_loop e ux ds ! i =
     (if ux \<le> i \<and> i < fecNUM_FEC_TX_BUFFERS
      then \<lparr>status = TX_BD_TC e, length_bd = 0, data = NULL\<rparr> else ds ! i)"
proof (induction e ux ds rule: init_tx_loop.induct)
  case (1 e ux ds)
  show ?case
  proof (cases "ux < fecNUM_FEC_TX_BUFFERS")
    case False
    then show ?thesis by (subst init_tx_loop.simps) auto
  next
    case True
    have "init_tx_loop e ux ds ! i =
          init_tx_loop e (Suc ux)
            (ds[ux := (ds ! ux)\<lparr>status := TX_BD_TC e, data := NULL, length_bd := 0\<rparr>]) ! i"
      using True by (subst init_tx_loop.simps) simp
    also have "\<dots> = (if Suc ux \<le> i \<and> i < fecNUM_FEC_TX_BUFFERS
                     then \<lparr>status = TX_BD_TC e, length_bd = 0, data = NULL\<rparr>
                     else (ds[ux := (ds ! ux)\<lparr>status := TX_BD_TC e, data := NULL, length_bd := 0\<rparr>]) ! i)"
      using "1.IH" [OF True] "1.prems" by simp
    also have "\<dots> = (if ux \<le> i \<and> i < fecNUM_FEC_TX_BUFFERS
                     then \<lparr>status = TX_BD_TC e, length_bd = 0, data = NULL\<rparr> else ds ! i)"
      using "1.prems" True by (cases "i = ux") (auto simp: FECBD_all_fields)
    finally show ?thesis .
  qed
qed

lemma init_rx_loop_nth:
  "i < length ds \<Longrightarrow>
   init_rx_loop e ux p ds ! i =
     (if ux \<le> i \<and> i < configNUM_FEC_RX_BUFFERS e
      then \<lparr>status = RX_BD_E e, length_bd = of_nat (configFEC_BUFFER_SIZE e),
            data = p + (i - ux) * configFEC_BUFFER_SIZE e\<rparr>
      else ds ! i)"
proof (induction e ux p ds rule: init_rx_loop.induct)
  case (1 e ux p ds)
  let ?d = "(ds ! ux)\<lparr>status := RX_BD_E e, length_bd := of_nat (configFEC_BUFFER_SIZE e), data := p\<rparr>"
  show ?case
  proof (cases "ux < configNUM_FEC_RX_BUFFERS e")
    case False
    then show ?thesis by (subst init_rx_loop.simps) auto
  next
    case True
    have "init_rx_loop e ux p ds ! i =
          init_rx_loop e (Suc ux) (p + configFEC_BUFFER_SIZE e) (ds[ux := ?d]) ! i"
      using True by (subst init_rx_loop.simps) simp
    also have "\<dots> = (if Suc ux \<le> i \<and> i < configNUM_FEC_RX_BUFFERS e
                     then \<lparr>status = RX_BD_E e, length_bd = of_nat (configFEC_BUFFER_SIZE e),
                           data = p + configFEC_BUFFER_SIZE e + (i - Suc ux) * configFEC_BUFFER_SIZE e\<rparr>
                     else (ds[ux := ?d]) ! i)"
      using "1.IH" [OF True] "1.prems" by simp
    also have "\<dots> = (if ux \<le> i \<and> i < configNUM_FEC_RX_BUFFERS e
                     then \<lparr>status = RX_BD_E e, length_bd = of_nat (configFEC_BUFFER_SIZE e),
                           data = p + (i - ux) * configFEC_BUFFER_SIZE e\<rparr>
                     else ds ! i)"
    proof (cases "i = ux")
      case True
      then show ?thesis using "1.prems" \<open>ux < configNUM_FEC_RX_BUFFERS e\<close>
        by (simp add: FECBD_all_fields)
    next
      case False
      show ?thesis
      proof (cases "Suc ux \<le> i")
        case True
        then have "Suc (i - Suc ux) = i - ux" by simp
        then have "configFEC_BUFFER_SIZE e + (i - Suc ux) * configFEC_BUFFER_SIZE e
                 = (i - ux) * configFEC_BUFFER_SIZE e"
          by (metis mult_Suc)
        then show ?thesis using True by (simp add: add.assoc)
      next
        case g: False
        then show ?thesis using False by simp
      qed
    qed
    finally show ?thesis .
  qed
qed

lemma length_status_or [simp]: "length (status_or i f ds) = length ds"
  by (simp add: status_or_def)

lemma status_or_nth:
  "j < length ds \<Longrightarrow>
   status_or i f ds ! j = (if j = i then (ds ! i)\<lparr>status := status (ds ! i) OR f\<rparr> else ds ! j)"
  by (simp add: status_or_def)

text \<open>The rings after initialisation, descriptor by descriptor.\<close>

lemma init_tx_nth:
  assumes "length (xFECTxDescriptors s) = fecNUM_FEC_TX_BUFFERS" "i < fecNUM_FEC_TX_BUFFERS"
  shows "xFECTxDescriptors (prvInitialiseFECBuffers e s) ! i =
           \<lparr>status = TX_BD_TC e OR TX_BD_W e, length_bd = 0, data = NULL\<rparr>"
  using assms
  by (simp add: prvInitialiseFECBuffers_def Let_def status_or_nth init_tx_loop_nth
      fecNUM_FEC_TX_BUFFERS_def)

lemma init_rx_nth:
  assumes "length (xFECRxDescriptors s) = configNUM_FEC_RX_BUFFERS e"
    and "i < configNUM_FEC_RX_BUFFERS e"
  shows "xFECRxDescriptors (prvInitialiseFECBuffers e s) ! i =
           \<lparr>status = (if i = configNUM_FEC_RX_BUFFERS e - 1 then RX_BD_E e OR RX_BD_W e
                       else RX_BD_E e),
            length_bd = of_nat (configFEC_BUFFER_SIZE e),
            data = align16 (ucFECRxBuffers e) + i * configFEC_BUFFER_SIZE e\<rparr>"
  using assms
  by (simp add: prvInitialiseFECBuffers_def Let_def status_or_nth init_rx_loop_nth)

lemma init_lengths:
  "length (xFECTxDescriptors (prvInitialiseFECBuffers e s)) = length (xFECTxDescriptors s)"
  "length (xFECRxDescriptors (prvInitialiseFECBuffers e s)) = length (xFECRxDescriptors s)"
  by (simp_all add: prvInitialiseFECBuffers_def Let_def)

lemma init_other_fields:
  "uxNextRxBuffer (prvInitialiseFECBuffers e s) = 0"
  "uxIndexToBufferOwner (prvInitialiseFECBuffers e s) = uxIndexToBufferOwner s"
  "regs (prvInitialiseFECBuffers e s) = regs s"
  "mmio (prvInitialiseFECBuffers e s) = mmio s"
  "xTxSemaphore (prvInitialiseFECBuffers e s) = xTxSemaphore s"
  "xFECSemaphore (prvInitialiseFECBuffers e s) = xFECSemaphore s"
  "uxCriticalNesting (prvInitialiseFECBuffers e s) = uxCriticalNesting s"
  "uip_buf (prvInitialiseFECBuffers e s) = uip_buf s"
  "uip_len (prvInitialiseFECBuffers e s) = uip_len s"
  by (simp_all add: prvInitialiseFECBuffers_def Let_def)

text \<open>The rings after initialisation do not depend on what they held before.\<close>

lemma init_rings_fixed:
  assumes "length (xFECTxDescriptors s) = fecNUM_FEC_TX_BUFFERS"
    and "length (xFECRxDescriptors s) = configNUM_FEC_RX_BUFFERS e"
    and "length (xFECTxDescriptors t) = fecNUM_FEC_TX_BUFFERS"
    and "length (xFECRxDescriptors t) = configNUM_FEC_RX_BUFFERS e"
  shows "xFECTxDescriptors (prvInitialiseFECBuffers e t) = xFECTxDescriptors (prvInitialiseFECBuffers e s)"
    and "xFECRxDescriptors (prvInitialiseFECBuffers e t) = xFECRxDescriptors (prvInitialiseFECBuffers e s)"
proof -
  show "xFECTxDescriptors (prvInitialiseFECBuffers e t) = xFECTxDescriptors (prvInitialiseFECBuffers e s)"
    by (rule nth_equalityI) (simp_all add: init_lengths assms init_tx_nth)
  show "xFECRxDescriptors (prvInitialiseFECBuffers e t) = xFECRxDescriptors (prvInitialiseFECBuffers e s)"
    by (rule nth_equalityI) (simp_all add: init_lengths assms init_rx_nth)
qed

lemma init_as_update:
  "prvInitialiseFECBuffers e t =
     t\<lparr>xFECTxDescriptors_ptr := align16 (xFECTxDescriptors_unaligned e),
       xFECRxDescriptors_ptr := align16 (xFECRxDescriptors_unaligned e),
       xFECTxDescriptors := xFECTxDescriptors (prvInitialiseFECBuffers e t),
       xFECRxDescriptors := xFECRxDescriptors (prvInitialiseFECBuffers e t),
       uxNextRxBuffer := 0\<rparr>"
  by (simp add: prvInitialiseFECBuffers_def Let_def)

lemma init_idempotent:
  assumes "length (xFECTxDescriptors s) = fecNUM_FEC_TX_BUFFERS"
    and "length (xFECRxDescriptors s) = configNUM_FEC_RX_BUFFERS e"
  shows "prvInitialiseFECBuffers e (prvInitialiseFECBuffers e s) = prvInitialiseFECBuffers e s"
proof -
  let ?s = "prvInitialiseFECBuffers e s"
  have l: "length (xFECTxDescriptors ?s) = fecNUM_FEC_TX_BUFFERS"
    "length (xFECRxDescriptors ?s) = configNUM_FEC_RX_BUFFERS e"
    by (simp_all add: init_lengths assms)
  have r: "xFECTxDescriptors (prvInitialiseFECBuffers e ?s) = xFECTxDescriptors ?s"
    "xFECRxDescriptors (prvInitialiseFECBuffers e ?s) = xFECRxDescriptors ?s"
    using init_rings_fixed [OF assms l] by simp_all
  have "prvInitialiseFECBuffers e ?s =
        ?s\<lparr>xFECTxDescriptors_ptr := align16 (xFECTxDescriptors_unaligned e),
           xFECRxDescriptors_ptr := align16 (xFECRxDescriptors_unaligned e),
           xFECTxDescriptors := xFECTxDescriptors ?s,
           xFECRxDescriptors := xFECRxDescriptors ?s,
           uxNextRxBuffer := 0\<rparr>"
    by (subst init_as_update) (simp only: r)
  also have "\<dots> = ?s"
    by (simp add: prvInitialiseFECBuffers_def Let_def)
  finally show ?thesis .
qed


lemma or_and_self: "(a OR b) AND b = (b :: 'a :: len word)" "(a OR b) AND a = a"
  by (simp_all add: bit_eq_iff bit_and_iff bit_or_iff)

text \<open>
  C3: for every receive ring depth of at least 1 (the transmit ring has depth 1), after
  \<open>prvInitialiseFECBuffers\<close> exactly the last descriptor of each ring carries the wrap
  marker; every transmit descriptor is software-owned with null data and zero length;
  every receive descriptor is hardware-owned, its length is the buffer size, and its
  data pointer is the aligned pool base plus index times buffer size, so the slices lie
  inside the pool and do not overlap; the receive cursor is 0. Running the procedure
  again changes nothing, and from any other state \<open>t\<close> it yields the same rings,
  ring pointers and cursor. The buffer size is positive and fits the 16-bit length
  field.
\<close>

theorem prvInitialiseFECBuffers_rings:
  assumes depth: "1 \<le> configNUM_FEC_RX_BUFFERS e"
    and flags: "bd_flags_ok e"
    and size: "0 < configFEC_BUFFER_SIZE e" "configFEC_BUFFER_SIZE e < 2 ^ 16"
    and tx: "length (xFECTxDescriptors s) = fecNUM_FEC_TX_BUFFERS"
    and rx: "length (xFECRxDescriptors s) = configNUM_FEC_RX_BUFFERS e"
    and tx': "length (xFECTxDescriptors t) = fecNUM_FEC_TX_BUFFERS"
    and rx': "length (xFECRxDescriptors t) = configNUM_FEC_RX_BUFFERS e"
  shows
    "(\<forall>i < fecNUM_FEC_TX_BUFFERS.
        (tx_wrap e (xFECTxDescriptors (prvInitialiseFECBuffers e s) ! i)
           \<longleftrightarrow> i = fecNUM_FEC_TX_BUFFERS - 1) \<and>
        \<not> tx_hw_owned e (xFECTxDescriptors (prvInitialiseFECBuffers e s) ! i) \<and>
        data (xFECTxDescriptors (prvInitialiseFECBuffers e s) ! i) = NULL \<and>
        length_bd (xFECTxDescriptors (prvInitialiseFECBuffers e s) ! i) = 0) \<and>
     (\<forall>i < configNUM_FEC_RX_BUFFERS e.
        (rx_wrap e (xFECRxDescriptors (prvInitialiseFECBuffers e s) ! i)
           \<longleftrightarrow> i = configNUM_FEC_RX_BUFFERS e - 1) \<and>
        rx_hw_owned e (xFECRxDescriptors (prvInitialiseFECBuffers e s) ! i) \<and>
        unat (length_bd (xFECRxDescriptors (prvInitialiseFECBuffers e s) ! i))
          = configFEC_BUFFER_SIZE e \<and>
        data (xFECRxDescriptors (prvInitialiseFECBuffers e s) ! i)
          = align16 (ucFECRxBuffers e) + i * configFEC_BUFFER_SIZE e \<and>
        ucFECRxBuffers e \<le> data (xFECRxDescriptors (prvInitialiseFECBuffers e s) ! i) \<and>
        data (xFECRxDescriptors (prvInitialiseFECBuffers e s) ! i) + configFEC_BUFFER_SIZE e
          \<le> ucFECRxBuffers e
               + (configNUM_FEC_RX_BUFFERS e * configFEC_BUFFER_SIZE e + 16)) \<and>
     (\<forall>i < configNUM_FEC_RX_BUFFERS e. \<forall>j < configNUM_FEC_RX_BUFFERS e. i < j \<longrightarrow>
        data (xFECRxDescriptors (prvInitialiseFECBuffers e s) ! i) + configFEC_BUFFER_SIZE e
          \<le> data (xFECRxDescriptors (prvInitialiseFECBuffers e s) ! j)) \<and>
     length (xFECTxDescriptors (prvInitialiseFECBuffers e s)) = fecNUM_FEC_TX_BUFFERS \<and>
     length (xFECRxDescriptors (prvInitialiseFECBuffers e s)) = configNUM_FEC_RX_BUFFERS e \<and>
     uxNextRxBuffer (prvInitialiseFECBuffers e s) = 0 \<and>
     prvInitialiseFECBuffers e (prvInitialiseFECBuffers e s) = prvInitialiseFECBuffers e s \<and>
     prvInitialiseFECBuffers e t =
       t\<lparr>xFECTxDescriptors_ptr := xFECTxDescriptors_ptr (prvInitialiseFECBuffers e s),
         xFECRxDescriptors_ptr := xFECRxDescriptors_ptr (prvInitialiseFECBuffers e s),
         xFECTxDescriptors := xFECTxDescriptors (prvInitialiseFECBuffers e s),
         xFECRxDescriptors := xFECRxDescriptors (prvInitialiseFECBuffers e s),
         uxNextRxBuffer := uxNextRxBuffer (prvInitialiseFECBuffers e s)\<rparr>"
proof -
  let ?s = "prvInitialiseFECBuffers e s"
  let ?N = "configNUM_FEC_RX_BUFFERS e"
  let ?B = "configFEC_BUFFER_SIZE e"
  have f: "RX_BD_E e \<noteq> 0" "RX_BD_W e \<noteq> 0" "RX_BD_E e AND RX_BD_W e = 0"
    "TX_BD_W e \<noteq> 0" "(TX_BD_TC e OR TX_BD_W e) AND TX_BD_R e = 0"
    using flags by (simp_all add: bd_flags_ok_def)
  have len: "unat (of_nat ?B :: 16 word) = ?B"
    using size(2) by (simp add: unat_of_nat)
  have a: "ucFECRxBuffers e \<le> align16 (ucFECRxBuffers e)"
    "align16 (ucFECRxBuffers e) < ucFECRxBuffers e + 16"
    using align16_bounds [of "ucFECRxBuffers e"] by simp_all
  have T: "\<forall>i < fecNUM_FEC_TX_BUFFERS.
        (tx_wrap e (xFECTxDescriptors ?s ! i) \<longleftrightarrow> i = fecNUM_FEC_TX_BUFFERS - 1) \<and>
        \<not> tx_hw_owned e (xFECTxDescriptors ?s ! i) \<and>
        data (xFECTxDescriptors ?s ! i) = NULL \<and>
        length_bd (xFECTxDescriptors ?s ! i) = 0"
  proof (intro allI impI)
    fix i assume i: "i < fecNUM_FEC_TX_BUFFERS"
    then have i0: "i = fecNUM_FEC_TX_BUFFERS - 1" by (simp add: fecNUM_FEC_TX_BUFFERS_def)
    show "(tx_wrap e (xFECTxDescriptors ?s ! i) \<longleftrightarrow> i = fecNUM_FEC_TX_BUFFERS - 1) \<and>
        \<not> tx_hw_owned e (xFECTxDescriptors ?s ! i) \<and>
        data (xFECTxDescriptors ?s ! i) = NULL \<and>
        length_bd (xFECTxDescriptors ?s ! i) = 0"
      unfolding init_tx_nth [OF tx i] using i0 f
      by (simp add: tx_wrap_def tx_hw_owned_def or_and_self)
  qed
  have R: "\<forall>i < ?N.
        (rx_wrap e (xFECRxDescriptors ?s ! i) \<longleftrightarrow> i = ?N - 1) \<and>
        rx_hw_owned e (xFECRxDescriptors ?s ! i) \<and>
        unat (length_bd (xFECRxDescriptors ?s ! i)) = ?B \<and>
        data (xFECRxDescriptors ?s ! i) = align16 (ucFECRxBuffers e) + i * ?B \<and>
        ucFECRxBuffers e \<le> data (xFECRxDescriptors ?s ! i) \<and>
        data (xFECRxDescriptors ?s ! i) + ?B \<le> ucFECRxBuffers e + (?N * ?B + 16)"
  proof (intro allI impI)
    fix i assume i: "i < ?N"
    have "Suc i \<le> ?N" using i by simp
    then have "Suc i * ?B \<le> ?N * ?B" by (rule mult_le_mono1)
    then have up: "i * ?B + ?B \<le> ?N * ?B" by simp
    show "(rx_wrap e (xFECRxDescriptors ?s ! i) \<longleftrightarrow> i = ?N - 1) \<and>
        rx_hw_owned e (xFECRxDescriptors ?s ! i) \<and>
        unat (length_bd (xFECRxDescriptors ?s ! i)) = ?B \<and>
        data (xFECRxDescriptors ?s ! i) = align16 (ucFECRxBuffers e) + i * ?B \<and>
        ucFECRxBuffers e \<le> data (xFECRxDescriptors ?s ! i) \<and>
        data (xFECRxDescriptors ?s ! i) + ?B \<le> ucFECRxBuffers e + (?N * ?B + 16)"
      unfolding init_rx_nth [OF rx i] using f len a up
      by (simp add: rx_wrap_def rx_hw_owned_def or_and_self)
  qed
  have D: "\<forall>i < ?N. \<forall>j < ?N. i < j \<longrightarrow>
        data (xFECRxDescriptors ?s ! i) + ?B \<le> data (xFECRxDescriptors ?s ! j)"
  proof (intro allI impI)
    fix i j assume i: "i < ?N" and j: "j < ?N" and ij: "i < j"
    have "Suc i \<le> j" using ij by simp
    then have "Suc i * ?B \<le> j * ?B" by (rule mult_le_mono1)
    then have "i * ?B + ?B \<le> j * ?B" by simp
    then show "data (xFECRxDescriptors ?s ! i) + ?B \<le> data (xFECRxDescriptors ?s ! j)"
      unfolding init_rx_nth [OF rx i] init_rx_nth [OF rx j] by simp
  qed
  have L: "length (xFECTxDescriptors ?s) = fecNUM_FEC_TX_BUFFERS"
    "length (xFECRxDescriptors ?s) = ?N"
    by (simp_all add: init_lengths tx rx)
  have C: "uxNextRxBuffer ?s = 0" by (rule init_other_fields)
  have I: "prvInitialiseFECBuffers e ?s = ?s" by (rule init_idempotent [OF tx rx])
  have P: "xFECTxDescriptors_ptr ?s = align16 (xFECTxDescriptors_unaligned e)"
    "xFECRxDescriptors_ptr ?s = align16 (xFECRxDescriptors_unaligned e)"
    by (simp_all add: prvInitialiseFECBuffers_def Let_def)
  have U: "prvInitialiseFECBuffers e t =
       t\<lparr>xFECTxDescriptors_ptr := xFECTxDescriptors_ptr ?s,
         xFECRxDescriptors_ptr := xFECRxDescriptors_ptr ?s,
         xFECTxDescriptors := xFECTxDescriptors ?s,
         xFECRxDescriptors := xFECRxDescriptors ?s,
         uxNextRxBuffer := uxNextRxBuffer ?s\<rparr>"
    by (subst init_as_update) (simp only: init_rings_fixed [OF tx rx tx' rx'] P C)
  show ?thesis
    using T R D L C I U by (intro conjI)
qed


text \<open>The instance of depth 3, from the running state and from the busy state.\<close>

theorem prvInitialiseFECBuffers_rings_witness:
  "1 \<le> configNUM_FEC_RX_BUFFERS demo_env \<and> bd_flags_ok demo_env \<and>
   0 < configFEC_BUFFER_SIZE demo_env \<and> configFEC_BUFFER_SIZE demo_env < 2 ^ 16 \<and>
   length (xFECTxDescriptors demo_state) = fecNUM_FEC_TX_BUFFERS \<and>
   length (xFECRxDescriptors demo_state) = configNUM_FEC_RX_BUFFERS demo_env \<and>
   length (xFECTxDescriptors demo_busy) = fecNUM_FEC_TX_BUFFERS \<and>
   length (xFECRxDescriptors demo_busy) = configNUM_FEC_RX_BUFFERS demo_env \<and>
   \<not> rx_wrap demo_env (xFECRxDescriptors (prvInitialiseFECBuffers demo_env demo_state) ! 1) \<and>
   rx_wrap demo_env (xFECRxDescriptors (prvInitialiseFECBuffers demo_env demo_state) ! 2) \<and>
   rx_hw_owned demo_env (xFECRxDescriptors (prvInitialiseFECBuffers demo_env demo_state) ! 1) \<and>
   data (xFECRxDescriptors (prvInitialiseFECBuffers demo_env demo_state) ! 1) = 0x20000640 \<and>
   data (xFECRxDescriptors (prvInitialiseFECBuffers demo_env demo_state) ! 2) = 0x20000C30 \<and>
   tx_wrap demo_env (xFECTxDescriptors (prvInitialiseFECBuffers demo_env demo_state) ! 0) \<and>
   \<not> tx_hw_owned demo_env (xFECTxDescriptors (prvInitialiseFECBuffers demo_env demo_state) ! 0) \<and>
   uxNextRxBuffer (prvInitialiseFECBuffers demo_env demo_state) = 0 \<and>
   prvInitialiseFECBuffers demo_env (prvInitialiseFECBuffers demo_env demo_state)
     = prvInitialiseFECBuffers demo_env demo_state \<and>
   xFECTxDescriptors (prvInitialiseFECBuffers demo_env demo_busy)
     = xFECTxDescriptors (prvInitialiseFECBuffers demo_env demo_state)"
proof -
  have h: "1 \<le> configNUM_FEC_RX_BUFFERS demo_env" "bd_flags_ok demo_env"
    "0 < configFEC_BUFFER_SIZE demo_env" "configFEC_BUFFER_SIZE demo_env < 2 ^ 16"
    "length (xFECTxDescriptors demo_state) = fecNUM_FEC_TX_BUFFERS"
    "length (xFECRxDescriptors demo_state) = configNUM_FEC_RX_BUFFERS demo_env"
    "length (xFECTxDescriptors demo_busy) = fecNUM_FEC_TX_BUFFERS"
    "length (xFECRxDescriptors demo_busy) = configNUM_FEC_RX_BUFFERS demo_env"
    by (simp_all add: demo_env_def demo_state_def demo_busy_def bd_flags_ok_def
        fecNUM_FEC_TX_BUFFERS_def)
  note T = prvInitialiseFECBuffers_rings [OF h]
  have n: "0 < fecNUM_FEC_TX_BUFFERS" "1 < configNUM_FEC_RX_BUFFERS demo_env"
    "2 < configNUM_FEC_RX_BUFFERS demo_env"
    by (simp_all add: demo_env_def fecNUM_FEC_TX_BUFFERS_def)
  have v: "align16 (ucFECRxBuffers demo_env) = 0x20000050"
    "configFEC_BUFFER_SIZE demo_env = 1520" "configNUM_FEC_RX_BUFFERS demo_env = 3"
    "fecNUM_FEC_TX_BUFFERS = 1"
    by (simp_all add: demo_env_def align16_eq fecNUM_FEC_TX_BUFFERS_def)
  note T0 = T [THEN conjunct1, rule_format, OF n(1)]
  note R1 = T [THEN conjunct2, THEN conjunct1, rule_format, OF n(2)]
  note R2 = T [THEN conjunct2, THEN conjunct1, rule_format, OF n(3)]
  have U: "xFECTxDescriptors (prvInitialiseFECBuffers demo_env demo_busy)
     = xFECTxDescriptors (prvInitialiseFECBuffers demo_env demo_state)"
    by (subst T [THEN conjunct2, THEN conjunct2, THEN conjunct2, THEN conjunct2,
          THEN conjunct2, THEN conjunct2, THEN conjunct2]) simp
  show ?thesis
    using h T0 R1 R2 U
      T [THEN conjunct2, THEN conjunct2, THEN conjunct2, THEN conjunct2, THEN conjunct2]
    by (simp add: v)
qed

section \<open>Receive path\<close>

lemma reg_write_fields [simp]:
  "mmio (reg_write r v s) = mmio s @ [(r, v)]"
  "xFECTxDescriptors (reg_write r v s) = xFECTxDescriptors s"
  "xFECRxDescriptors (reg_write r v s) = xFECRxDescriptors s"
  "uxNextRxBuffer (reg_write r v s) = uxNextRxBuffer s"
  "uxIndexToBufferOwner (reg_write r v s) = uxIndexToBufferOwner s"
  "xTxSemaphore (reg_write r v s) = xTxSemaphore s"
  "xFECSemaphore (reg_write r v s) = xFECSemaphore s"
  "uxCriticalNesting (reg_write r v s) = uxCriticalNesting s"
  "uip_buf (reg_write r v s) = uip_buf s"
  "uip_len (reg_write r v s) = uip_len s"
  by (simp_all add: reg_write_def)

lemma reg_write_regs:
  "regs (reg_write r v s) r' =
     (if r' = r then (if r = MCF_FEC_EIR then regs s r AND NOT v else v) else regs s r')"
  by (simp add: reg_write_def)

lemma vDiscardRxData_fields:
  "xFECRxDescriptors (vDiscardRxData e s) =
     status_or (uxNextRxBuffer s) (RX_BD_E e) (xFECRxDescriptors s)"
  "xFECTxDescriptors (vDiscardRxData e s) = xFECTxDescriptors s"
  "uxNextRxBuffer (vDiscardRxData e s) =
     (if uxNextRxBuffer s + 1 \<ge> configNUM_FEC_RX_BUFFERS e then 0 else uxNextRxBuffer s + 1)"
  "uxIndexToBufferOwner (vDiscardRxData e s) = uxIndexToBufferOwner s"
  "mmio (vDiscardRxData e s) = mmio s @ [(MCF_FEC_RDAR, MCF_FEC_RDAR_R_DES_ACTIVE e)]"
  "xTxSemaphore (vDiscardRxData e s) = xTxSemaphore s"
  "uip_buf (vDiscardRxData e s) = uip_buf s"
  by (simp_all add: vDiscardRxData_def Let_def)

lemma vDiscardRxData_cursor_mod:
  assumes "ring_inv e s"
  shows "uxNextRxBuffer (vDiscardRxData e s)
           = (uxNextRxBuffer s + 1) mod configNUM_FEC_RX_BUFFERS e"
proof (cases "uxNextRxBuffer s + 1 \<ge> configNUM_FEC_RX_BUFFERS e")
  case True
  then have "uxNextRxBuffer s + 1 = configNUM_FEC_RX_BUFFERS e"
    using assms by (simp add: ring_inv_def)
  then show ?thesis using True by (simp add: vDiscardRxData_fields)
next
  case False
  then show ?thesis by (simp add: vDiscardRxData_fields)
qed

lemma vDiscardRxData_inv:
  assumes "ring_inv e s"
  shows "ring_inv e (vDiscardRxData e s)"
  using assms by (simp add: ring_inv_def vDiscardRxData_fields)

lemma usGetFECRxData_fields:
  "xFECRxDescriptors (snd (usGetFECRxData e s)) = xFECRxDescriptors s"
  "xFECTxDescriptors (snd (usGetFECRxData e s)) = xFECTxDescriptors s"
  "uxNextRxBuffer (snd (usGetFECRxData e s)) = uxNextRxBuffer s"
  "uxIndexToBufferOwner (snd (usGetFECRxData e s)) = uxIndexToBufferOwner s"
  "mmio (snd (usGetFECRxData e s)) = mmio s"
  "regs (snd (usGetFECRxData e s)) = regs s"
  "xTxSemaphore (snd (usGetFECRxData e s)) = xTxSemaphore s"
  by (simp_all add: usGetFECRxData_def Let_def)

lemma usGetFECRxData_inv:
  "ring_inv e s \<Longrightarrow> ring_inv e (snd (usGetFECRxData e s))"
  by (simp add: ring_inv_def usGetFECRxData_fields)

lemma status_or_owned:
  "i < length ds \<Longrightarrow> RX_BD_E e \<noteq> 0 \<Longrightarrow> rx_hw_owned e (status_or i (RX_BD_E e) ds ! i)"
  by (simp add: status_or_nth rx_hw_owned_def or_and_self)

lemma status_or_other:
  "j < length ds \<Longrightarrow> j \<noteq> i \<Longrightarrow> status_or i f ds ! j = ds ! j"
  by (simp add: status_or_nth)

text \<open>
  C4: \<open>usGetFECRxData\<close> returns a nonzero length exactly when the descriptor under the
  cursor has a nonzero length and is not hardware-owned; it then returns that length and
  publishes the descriptor's own data pointer in \<open>uip_buf\<close>. Otherwise it returns 0 and
  leaves the state as it was; in particular it returns 0 while the descriptor is
  hardware-owned. It is a total function without a loop, and it changes neither ring nor
  the cursor: no frame is copied.
\<close>

theorem usGetFECRxData_poll:
  assumes "ring_inv e s"
  shows "(fst (usGetFECRxData e s) \<noteq> 0 \<longleftrightarrow>
            length_bd (xFECRxDescriptors s ! uxNextRxBuffer s) \<noteq> 0 \<and>
            \<not> rx_hw_owned e (xFECRxDescriptors s ! uxNextRxBuffer s)) \<and>
         (fst (usGetFECRxData e s) \<noteq> 0 \<longrightarrow>
            fst (usGetFECRxData e s) = length_bd (xFECRxDescriptors s ! uxNextRxBuffer s) \<and>
            snd (usGetFECRxData e s)
              = s\<lparr>uip_buf := data (xFECRxDescriptors s ! uxNextRxBuffer s)\<rparr>) \<and>
         (fst (usGetFECRxData e s) = 0 \<longrightarrow> snd (usGetFECRxData e s) = s) \<and>
         (rx_hw_owned e (xFECRxDescriptors s ! uxNextRxBuffer s) \<longrightarrow>
            fst (usGetFECRxData e s) = 0) \<and>
         xFECRxDescriptors (snd (usGetFECRxData e s)) = xFECRxDescriptors s \<and>
         xFECTxDescriptors (snd (usGetFECRxData e s)) = xFECTxDescriptors s \<and>
         uxNextRxBuffer (snd (usGetFECRxData e s)) = uxNextRxBuffer s"
  by (simp add: usGetFECRxData_def Let_def rx_hw_owned_def)

text \<open>
  In the running state the cursor is on a received frame of 60 bytes; with the cursor on
  slot 0, which the device owns, the poll returns 0.
\<close>

theorem usGetFECRxData_poll_witness:
  "ring_inv demo_env demo_state \<and>
   usGetFECRxData demo_env demo_state = (60, demo_state\<lparr>uip_buf := 0x20000640\<rparr>) \<and>
   ring_inv demo_env (demo_state\<lparr>uxNextRxBuffer := 0\<rparr>) \<and>
   usGetFECRxData demo_env (demo_state\<lparr>uxNextRxBuffer := 0\<rparr>)
     = (0, demo_state\<lparr>uxNextRxBuffer := 0\<rparr>)"
proof -
  have h: "ring_inv demo_env demo_state" "ring_inv demo_env (demo_state\<lparr>uxNextRxBuffer := 0\<rparr>)"
    by (simp_all add: ring_inv_def demo_env_def demo_state_def fecNUM_FEC_TX_BUFFERS_def)
  have a: "length_bd (xFECRxDescriptors demo_state ! uxNextRxBuffer demo_state) = 60"
    "data (xFECRxDescriptors demo_state ! uxNextRxBuffer demo_state) = 0x20000640"
    "\<not> rx_hw_owned demo_env (xFECRxDescriptors demo_state ! uxNextRxBuffer demo_state)"
    "rx_hw_owned demo_env (xFECRxDescriptors (demo_state\<lparr>uxNextRxBuffer := 0\<rparr>)
        ! uxNextRxBuffer (demo_state\<lparr>uxNextRxBuffer := 0\<rparr>))"
    by (simp_all add: demo_state_def demo_env_def rx_hw_owned_def)
  show ?thesis
    using usGetFECRxData_poll [OF h(1)] usGetFECRxData_poll [OF h(2)] h a
    by (simp add: prod_eq_iff)
qed

lemma rx_cycles:
  assumes "ring_inv e s"
  shows "ring_inv e (((\<lambda>s. vDiscardRxData e (snd (usGetFECRxData e s))) ^^ k) s) \<and>
         uxNextRxBuffer (((\<lambda>s. vDiscardRxData e (snd (usGetFECRxData e s))) ^^ k) s)
           = (uxNextRxBuffer s + k) mod configNUM_FEC_RX_BUFFERS e"
proof (induction k)
  case 0
  then show ?case using assms by (simp add: ring_inv_def)
next
  case (Suc k)
  let ?t = "((\<lambda>s. vDiscardRxData e (snd (usGetFECRxData e s))) ^^ k) s"
  have i: "ring_inv e (snd (usGetFECRxData e ?t))"
    using Suc.IH by (simp add: usGetFECRxData_inv)
  have "uxNextRxBuffer (vDiscardRxData e (snd (usGetFECRxData e ?t)))
          = (uxNextRxBuffer ?t + 1) mod configNUM_FEC_RX_BUFFERS e"
    using vDiscardRxData_cursor_mod [OF i] by (simp add: usGetFECRxData_fields)
  also have "\<dots> = (uxNextRxBuffer s + Suc k) mod configNUM_FEC_RX_BUFFERS e"
    using Suc.IH by (simp add: mod_Suc_eq)
  finally show ?case
    using vDiscardRxData_inv [OF i] by simp
qed

text \<open>
  C5: \<open>vDiscardRxData\<close> marks the descriptor under the cursor hardware-owned, leaves the
  other descriptors alone, and moves the cursor from \<open>i\<close> to \<open>(i + 1) mod N\<close>. After \<open>k\<close>
  receive/release cycles (a poll followed by a release) the cursor has advanced by \<open>k\<close>
  modulo \<open>N\<close>; started at 0 it is \<open>k mod N\<close>, always below \<open>N\<close>.
\<close>

theorem vDiscardRxData_cursor:
  assumes "ring_inv e s" and "RX_BD_E e \<noteq> 0"
  shows "uxNextRxBuffer (vDiscardRxData e s)
           = (uxNextRxBuffer s + 1) mod configNUM_FEC_RX_BUFFERS e \<and>
         rx_hw_owned e (xFECRxDescriptors (vDiscardRxData e s) ! uxNextRxBuffer s) \<and>
         (\<forall>j < configNUM_FEC_RX_BUFFERS e. j \<noteq> uxNextRxBuffer s \<longrightarrow>
            xFECRxDescriptors (vDiscardRxData e s) ! j = xFECRxDescriptors s ! j) \<and>
         uxNextRxBuffer (((\<lambda>s. vDiscardRxData e (snd (usGetFECRxData e s))) ^^ k) s)
           = (uxNextRxBuffer s + k) mod configNUM_FEC_RX_BUFFERS e \<and>
         uxNextRxBuffer (((\<lambda>s. vDiscardRxData e (snd (usGetFECRxData e s))) ^^ k) s)
           < configNUM_FEC_RX_BUFFERS e \<and>
         (uxNextRxBuffer s = 0 \<longrightarrow>
            uxNextRxBuffer (((\<lambda>s. vDiscardRxData e (snd (usGetFECRxData e s))) ^^ k) s)
              = k mod configNUM_FEC_RX_BUFFERS e)"
proof -
  have l: "uxNextRxBuffer s < length (xFECRxDescriptors s)"
    "length (xFECRxDescriptors s) = configNUM_FEC_RX_BUFFERS e"
    using assms(1) by (simp_all add: ring_inv_def)
  have a: "rx_hw_owned e (xFECRxDescriptors (vDiscardRxData e s) ! uxNextRxBuffer s)"
    using status_or_owned [OF l(1) assms(2)] by (simp add: vDiscardRxData_fields)
  have b: "\<forall>j < configNUM_FEC_RX_BUFFERS e. j \<noteq> uxNextRxBuffer s \<longrightarrow>
            xFECRxDescriptors (vDiscardRxData e s) ! j = xFECRxDescriptors s ! j"
    using l by (simp add: vDiscardRxData_fields status_or_other)
  have c: "uxNextRxBuffer (((\<lambda>s. vDiscardRxData e (snd (usGetFECRxData e s))) ^^ k) s)
           < configNUM_FEC_RX_BUFFERS e"
    using rx_cycles [OF assms(1), of k] by (simp add: ring_inv_def)
  show ?thesis
    using vDiscardRxData_cursor_mod [OF assms(1)] a b c rx_cycles [OF assms(1), of k]
    by simp
qed

text \<open>Depth 3, cursor on slot 1: one release moves it to 2, five cycles to 0.\<close>

theorem vDiscardRxData_cursor_witness:
  "ring_inv demo_env demo_state \<and> RX_BD_E demo_env \<noteq> 0 \<and>
   uxNextRxBuffer demo_state = 1 \<and>
   uxNextRxBuffer (vDiscardRxData demo_env demo_state) = 2 \<and>
   rx_hw_owned demo_env (xFECRxDescriptors (vDiscardRxData demo_env demo_state) ! 1) \<and>
   uxNextRxBuffer
     (((\<lambda>s. vDiscardRxData demo_env (snd (usGetFECRxData demo_env s))) ^^ 5) demo_state) = 0"
proof -
  have h: "ring_inv demo_env demo_state" "RX_BD_E demo_env \<noteq> 0"
    by (simp_all add: ring_inv_def demo_env_def demo_state_def fecNUM_FEC_TX_BUFFERS_def)
  have v: "uxNextRxBuffer demo_state = 1" "configNUM_FEC_RX_BUFFERS demo_env = 3"
    by (simp_all add: demo_env_def demo_state_def)
  show ?thesis
    using vDiscardRxData_cursor [OF h, of 5] h by (simp add: v)
qed

section \<open>Reset and transmit path\<close>

lemma init_ignores_kernel_state:
  "xFECTxDescriptors (prvInitialiseFECBuffers e (s\<lparr>uxCriticalNesting := n\<rparr>))
     = xFECTxDescriptors (prvInitialiseFECBuffers e s)"
  "xFECRxDescriptors (prvInitialiseFECBuffers e (s\<lparr>uxCriticalNesting := n\<rparr>))
     = xFECRxDescriptors (prvInitialiseFECBuffers e s)"
  "xFECTxDescriptors (prvInitialiseFECBuffers e (s\<lparr>xTxSemaphore := b\<rparr>))
     = xFECTxDescriptors (prvInitialiseFECBuffers e s)"
  "xFECRxDescriptors (prvInitialiseFECBuffers e (s\<lparr>xTxSemaphore := b\<rparr>))
     = xFECRxDescriptors (prvInitialiseFECBuffers e s)"
  by (simp_all add: prvInitialiseFECBuffers_def Let_def)

lemma prvResetFEC_fields:
  "xFECTxDescriptors (prvResetFEC e b s) = xFECTxDescriptors (prvInitialiseFECBuffers e s)"
  "xFECRxDescriptors (prvResetFEC e b s) = xFECRxDescriptors (prvInitialiseFECBuffers e s)"
  "uxNextRxBuffer (prvResetFEC e b s) = 0"
  "uxIndexToBufferOwner (prvResetFEC e b s) = uxIndexToBufferOwner s"
  "uxCriticalNesting (prvResetFEC e b s) = uxCriticalNesting s"
  "xTxSemaphore (prvResetFEC e b s) = xTxSemaphore s"
  "xFECSemaphore (prvResetFEC e b s) = xFECSemaphore s"
  "uip_buf (prvResetFEC e b s) = uip_buf s"
  "uip_len (prvResetFEC e b s) = uip_len s"
  "mmio (prvResetFEC e b s) =
     mmio s @ [(MCF_FEC_ECR, MCF_FEC_ECR_RESET e), (MCF_FEC_ECR, MCF_FEC_ECR_ETHER_EN e),
               (MCF_FEC_RDAR, MCF_FEC_RDAR_R_DES_ACTIVE e)]"
  by (simp_all add: prvResetFEC_def Let_def init_other_fields init_ignores_kernel_state
      taskENTER_CRITICAL_def taskEXIT_CRITICAL_def)

lemma prvResetFEC_regs:
  "regs (prvResetFEC e b s) r =
     (if r = MCF_FEC_RDAR then MCF_FEC_RDAR_R_DES_ACTIVE e
      else if r = MCF_FEC_ECR then MCF_FEC_ECR_ETHER_EN e else regs s r)"
  by (simp add: prvResetFEC_def Let_def init_other_fields reg_write_regs
      taskENTER_CRITICAL_def taskEXIT_CRITICAL_def)

lemma init_rx_owned:
  assumes "length (xFECRxDescriptors s) = configNUM_FEC_RX_BUFFERS e"
    and "i < configNUM_FEC_RX_BUFFERS e" and "RX_BD_E e \<noteq> 0"
  shows "rx_hw_owned e (xFECRxDescriptors (prvInitialiseFECBuffers e s) ! i)"
  unfolding init_rx_nth [OF assms(1,2)] using assms(3)
  by (simp add: rx_hw_owned_def or_and_self)

lemma init_tx_idle:
  assumes "length (xFECTxDescriptors s) = fecNUM_FEC_TX_BUFFERS"
    and "i < fecNUM_FEC_TX_BUFFERS" and "(TX_BD_TC e OR TX_BD_W e) AND TX_BD_R e = 0"
  shows "\<not> tx_hw_owned e (xFECTxDescriptors (prvInitialiseFECBuffers e s) ! i)"
  unfolding init_tx_nth [OF assms(1,2)] using assms(3)
  by (simp add: tx_hw_owned_def)

lemma vSendBufferToFEC_busy_eq:
  assumes "xTxSemaphore s"
    and "tx_hw_owned e (xFECTxDescriptors s ! fecTX_BUFFER_TO_USE)"
  shows "vSendBufferToFEC e s
           = xSemaphoreGive_xTxSemaphore (prvResetFEC e False (s\<lparr>xTxSemaphore := False\<rparr>))"
  using assms
  by (simp add: vSendBufferToFEC_def xSemaphoreTake_xTxSemaphore_def tx_hw_owned_def)

lemma vSendBufferToFEC_timeout_eq:
  assumes "\<not> xTxSemaphore s"
  shows "vSendBufferToFEC e s = vDiscardRxData e s"
  using assms by (simp add: vSendBufferToFEC_def xSemaphoreTake_xTxSemaphore_def)

text \<open>
  C1: when \<open>vSendBufferToFEC\<close> has taken the transmit token and finds the transmit
  descriptor still ready (hardware-owned), it transmits nothing: the result is the full
  reset \<open>prvResetFEC\<close> run from task context followed by giving the token back. The
  register writes are those of the reset, none of them to the transmit doorbell. After
  it the transmit descriptor holds the initial status with the wrap bit, null data and
  zero length whatever \<open>uip_buf\<close> and \<open>uip_len\<close> hold, and is no longer ready; every
  receive descriptor is hardware-owned, with the buffer size as length and its own
  slice of the pool as data; the cursor is 0.
\<close>

theorem vSendBufferToFEC_busy:
  assumes "ring_inv e s" and "bd_flags_ok e" and "xTxSemaphore s"
    and "tx_hw_owned e (xFECTxDescriptors s ! fecTX_BUFFER_TO_USE)"
  shows "vSendBufferToFEC e s
           = xSemaphoreGive_xTxSemaphore (prvResetFEC e False (s\<lparr>xTxSemaphore := False\<rparr>)) \<and>
         mmio (vSendBufferToFEC e s) =
           mmio s @ [(MCF_FEC_ECR, MCF_FEC_ECR_RESET e), (MCF_FEC_ECR, MCF_FEC_ECR_ETHER_EN e),
                     (MCF_FEC_RDAR, MCF_FEC_RDAR_R_DES_ACTIVE e)] \<and>
         (MCF_FEC_TDAR, MCF_FEC_TDAR_X_DES_ACTIVE e)
            \<notin> set (drop (length (mmio s)) (mmio (vSendBufferToFEC e s))) \<and>
         xFECTxDescriptors (vSendBufferToFEC e s)
           = xFECTxDescriptors (prvInitialiseFECBuffers e s) \<and>
         xFECRxDescriptors (vSendBufferToFEC e s)
           = xFECRxDescriptors (prvInitialiseFECBuffers e s) \<and>
         data (xFECTxDescriptors (vSendBufferToFEC e s) ! fecTX_BUFFER_TO_USE) = NULL \<and>
         length_bd (xFECTxDescriptors (vSendBufferToFEC e s) ! fecTX_BUFFER_TO_USE) = 0 \<and>
         uxNextRxBuffer (vSendBufferToFEC e s) = 0 \<and>
         uxIndexToBufferOwner (vSendBufferToFEC e s) = uxIndexToBufferOwner s \<and>
         uxCriticalNesting (vSendBufferToFEC e s) = uxCriticalNesting s \<and>
         xTxSemaphore (vSendBufferToFEC e s) \<and>
         xFECTxDescriptors (vSendBufferToFEC e s) ! fecTX_BUFFER_TO_USE
           = \<lparr>status = TX_BD_TC e OR TX_BD_W e, length_bd = 0, data = NULL\<rparr> \<and>
         \<not> tx_hw_owned e (xFECTxDescriptors (vSendBufferToFEC e s) ! fecTX_BUFFER_TO_USE) \<and>
         length (xFECRxDescriptors (vSendBufferToFEC e s)) = configNUM_FEC_RX_BUFFERS e \<and>
         (\<forall>i < configNUM_FEC_RX_BUFFERS e.
            rx_hw_owned e (xFECRxDescriptors (vSendBufferToFEC e s) ! i) \<and>
            xFECRxDescriptors (vSendBufferToFEC e s) ! i
              = \<lparr>status = (if i = configNUM_FEC_RX_BUFFERS e - 1
                            then RX_BD_E e OR RX_BD_W e else RX_BD_E e),
                 length_bd = of_nat (configFEC_BUFFER_SIZE e),
                 data = align16 (ucFECRxBuffers e) + i * configFEC_BUFFER_SIZE e\<rparr>)"
proof -
  have l: "length (xFECTxDescriptors s) = fecNUM_FEC_TX_BUFFERS"
    "fecTX_BUFFER_TO_USE < fecNUM_FEC_TX_BUFFERS"
    using assms(1) by (simp_all add: ring_inv_def fecTX_BUFFER_TO_USE_def fecNUM_FEC_TX_BUFFERS_def)
  have r: "length (xFECRxDescriptors s) = configNUM_FEC_RX_BUFFERS e"
    using assms(1) by (simp add: ring_inv_def)
  have f: "RX_BD_E e \<noteq> 0" "(TX_BD_TC e OR TX_BD_W e) AND TX_BD_R e = 0"
    using assms(2) by (simp_all add: bd_flags_ok_def)
  have old: "vSendBufferToFEC e s
           = xSemaphoreGive_xTxSemaphore (prvResetFEC e False (s\<lparr>xTxSemaphore := False\<rparr>)) \<and>
         mmio (vSendBufferToFEC e s) =
           mmio s @ [(MCF_FEC_ECR, MCF_FEC_ECR_RESET e), (MCF_FEC_ECR, MCF_FEC_ECR_ETHER_EN e),
                     (MCF_FEC_RDAR, MCF_FEC_RDAR_R_DES_ACTIVE e)] \<and>
         (MCF_FEC_TDAR, MCF_FEC_TDAR_X_DES_ACTIVE e)
            \<notin> set (drop (length (mmio s)) (mmio (vSendBufferToFEC e s))) \<and>
         xFECTxDescriptors (vSendBufferToFEC e s)
           = xFECTxDescriptors (prvInitialiseFECBuffers e s) \<and>
         xFECRxDescriptors (vSendBufferToFEC e s)
           = xFECRxDescriptors (prvInitialiseFECBuffers e s) \<and>
         data (xFECTxDescriptors (vSendBufferToFEC e s) ! fecTX_BUFFER_TO_USE) = NULL \<and>
         length_bd (xFECTxDescriptors (vSendBufferToFEC e s) ! fecTX_BUFFER_TO_USE) = 0 \<and>
         uxNextRxBuffer (vSendBufferToFEC e s) = 0 \<and>
         uxIndexToBufferOwner (vSendBufferToFEC e s) = uxIndexToBufferOwner s \<and>
         uxCriticalNesting (vSendBufferToFEC e s) = uxCriticalNesting s \<and>
         xTxSemaphore (vSendBufferToFEC e s)"
    unfolding vSendBufferToFEC_busy_eq [OF assms(3,4)]
    by (simp add: xSemaphoreGive_xTxSemaphore_def prvResetFEC_fields
        init_ignores_kernel_state init_tx_nth [OF l])
  note tx = old [THEN conjunct2, THEN conjunct2, THEN conjunct2, THEN conjunct1]
  note rx = old [THEN conjunct2, THEN conjunct2, THEN conjunct2, THEN conjunct2, THEN conjunct1]
  have t1: "xFECTxDescriptors (vSendBufferToFEC e s) ! fecTX_BUFFER_TO_USE
           = \<lparr>status = TX_BD_TC e OR TX_BD_W e, length_bd = 0, data = NULL\<rparr>"
    unfolding tx by (rule init_tx_nth [OF l])
  have t2: "\<not> tx_hw_owned e (xFECTxDescriptors (vSendBufferToFEC e s) ! fecTX_BUFFER_TO_USE)"
    unfolding tx by (rule init_tx_idle [OF l f(2)])
  have r0: "length (xFECRxDescriptors (vSendBufferToFEC e s)) = configNUM_FEC_RX_BUFFERS e"
    unfolding rx by (simp add: init_lengths r)
  have r1: "\<forall>i < configNUM_FEC_RX_BUFFERS e.
            rx_hw_owned e (xFECRxDescriptors (vSendBufferToFEC e s) ! i) \<and>
            xFECRxDescriptors (vSendBufferToFEC e s) ! i
              = \<lparr>status = (if i = configNUM_FEC_RX_BUFFERS e - 1
                            then RX_BD_E e OR RX_BD_W e else RX_BD_E e),
                 length_bd = of_nat (configFEC_BUFFER_SIZE e),
                 data = align16 (ucFECRxBuffers e) + i * configFEC_BUFFER_SIZE e\<rparr>"
    unfolding rx using init_rx_owned [OF r _ f(1)] init_rx_nth [OF r] by blast
  show ?thesis
    using old t1 t2 r0 r1 by blast
qed

text \<open>
  The busy state: the token is there, the transmit descriptor is still ready, and slot 1
  holds a frame the driver owns; after the call the device owns slot 1 again.
\<close>

theorem vSendBufferToFEC_busy_witness:
  "ring_inv demo_env demo_busy \<and> bd_flags_ok demo_env \<and> xTxSemaphore demo_busy \<and>
   tx_hw_owned demo_env (xFECTxDescriptors demo_busy ! fecTX_BUFFER_TO_USE) \<and>
   \<not> rx_hw_owned demo_env (xFECRxDescriptors demo_busy ! 1) \<and>
   mmio (vSendBufferToFEC demo_env demo_busy) =
     [(MCF_FEC_ECR, 1), (MCF_FEC_ECR, 2), (MCF_FEC_RDAR, 0x01000000)] \<and>
   data (xFECTxDescriptors (vSendBufferToFEC demo_env demo_busy) ! fecTX_BUFFER_TO_USE) = NULL \<and>
   length_bd (xFECTxDescriptors (vSendBufferToFEC demo_env demo_busy) ! fecTX_BUFFER_TO_USE) = 0 \<and>
   uxNextRxBuffer (vSendBufferToFEC demo_env demo_busy) = 0 \<and>
   xTxSemaphore (vSendBufferToFEC demo_env demo_busy) \<and>
   \<not> tx_hw_owned demo_env
       (xFECTxDescriptors (vSendBufferToFEC demo_env demo_busy) ! fecTX_BUFFER_TO_USE) \<and>
   rx_hw_owned demo_env (xFECRxDescriptors (vSendBufferToFEC demo_env demo_busy) ! 1) \<and>
   xFECRxDescriptors (vSendBufferToFEC demo_env demo_busy) ! 1
     = \<lparr>status = 0x8000, length_bd = 1520, data = 0x20000640\<rparr>"
proof -
  have h: "ring_inv demo_env demo_busy" "bd_flags_ok demo_env" "xTxSemaphore demo_busy"
    "tx_hw_owned demo_env (xFECTxDescriptors demo_busy ! fecTX_BUFFER_TO_USE)"
    by (simp_all add: ring_inv_def bd_flags_ok_def demo_env_def demo_state_def demo_busy_def
        tx_hw_owned_def fecNUM_FEC_TX_BUFFERS_def fecTX_BUFFER_TO_USE_def)
  have b: "\<not> rx_hw_owned demo_env (xFECRxDescriptors demo_busy ! 1)"
    by (simp add: rx_hw_owned_def demo_env_def demo_state_def demo_busy_def)
  have v: "mmio demo_busy = []" "MCF_FEC_ECR_RESET demo_env = 1"
    "MCF_FEC_ECR_ETHER_EN demo_env = 2" "MCF_FEC_RDAR_R_DES_ACTIVE demo_env = 0x01000000"
    by (simp_all add: demo_env_def demo_state_def demo_busy_def)
  have n: "1 < configNUM_FEC_RX_BUFFERS demo_env"
    by (simp add: demo_env_def)
  have w: "(if (1 :: nat) = configNUM_FEC_RX_BUFFERS demo_env - 1
            then RX_BD_E demo_env OR RX_BD_W demo_env else RX_BD_E demo_env) = 0x8000"
    "(of_nat (configFEC_BUFFER_SIZE demo_env) :: 16 word) = 1520"
    "align16 (ucFECRxBuffers demo_env) + 1 * configFEC_BUFFER_SIZE demo_env = 0x20000640"
    by (simp_all add: demo_env_def align16_eq)
  note T = vSendBufferToFEC_busy [OF h, THEN conjunct2, unfolded v append_Nil]
  note c2 = conjunct2
  note R = T [THEN c2, THEN c2, THEN c2, THEN c2, THEN c2, THEN c2, THEN c2, THEN c2, THEN c2,
      THEN c2, THEN c2, THEN c2, THEN c2, rule_format, OF n, unfolded w]
  show ?thesis
    using T R h b by blast
qed

text \<open>
  C9: when the transmit token cannot be taken within the bound, \<open>vSendBufferToFEC\<close> is
  \<open>vDiscardRxData\<close>: the transmit ring is untouched, the only register write is the
  receive doorbell, the slot under the cursor goes back to the device, and the cursor
  advances. The function returns nothing, so no error is reported.
\<close>

theorem vSendBufferToFEC_timeout:
  assumes "ring_inv e s" and "\<not> xTxSemaphore s" and "RX_BD_E e \<noteq> 0"
  shows "vSendBufferToFEC e s = vDiscardRxData e s \<and>
         xFECTxDescriptors (vSendBufferToFEC e s) = xFECTxDescriptors s \<and>
         mmio (vSendBufferToFEC e s)
           = mmio s @ [(MCF_FEC_RDAR, MCF_FEC_RDAR_R_DES_ACTIVE e)] \<and>
         rx_hw_owned e (xFECRxDescriptors (vSendBufferToFEC e s) ! uxNextRxBuffer s) \<and>
         (\<forall>j < configNUM_FEC_RX_BUFFERS e. j \<noteq> uxNextRxBuffer s \<longrightarrow>
            xFECRxDescriptors (vSendBufferToFEC e s) ! j = xFECRxDescriptors s ! j) \<and>
         uxNextRxBuffer (vSendBufferToFEC e s)
           = (uxNextRxBuffer s + 1) mod configNUM_FEC_RX_BUFFERS e \<and>
         uxIndexToBufferOwner (vSendBufferToFEC e s) = uxIndexToBufferOwner s \<and>
         \<not> xTxSemaphore (vSendBufferToFEC e s)"
proof -
  have l: "uxNextRxBuffer s < length (xFECRxDescriptors s)"
    "length (xFECRxDescriptors s) = configNUM_FEC_RX_BUFFERS e"
    using assms(1) by (simp_all add: ring_inv_def)
  have a: "rx_hw_owned e (xFECRxDescriptors (vDiscardRxData e s) ! uxNextRxBuffer s)"
    using status_or_owned [OF l(1) assms(3)] by (simp add: vDiscardRxData_fields)
  have b: "\<forall>j < configNUM_FEC_RX_BUFFERS e. j \<noteq> uxNextRxBuffer s \<longrightarrow>
            xFECRxDescriptors (vDiscardRxData e s) ! j = xFECRxDescriptors s ! j"
    using l by (simp add: vDiscardRxData_fields status_or_other)
  show ?thesis
    unfolding vSendBufferToFEC_timeout_eq [OF assms(2)]
    using a b vDiscardRxData_cursor_mod [OF assms(1)] assms(2)
    by (simp add: vDiscardRxData_fields(2,4,5,6))
qed

text \<open>The running state without the token: the frame in slot 1 is dropped.\<close>

theorem vSendBufferToFEC_timeout_witness:
  "ring_inv demo_env (demo_state\<lparr>xTxSemaphore := False\<rparr>) \<and>
   \<not> xTxSemaphore (demo_state\<lparr>xTxSemaphore := False\<rparr>) \<and> RX_BD_E demo_env \<noteq> 0 \<and>
   xFECTxDescriptors (vSendBufferToFEC demo_env (demo_state\<lparr>xTxSemaphore := False\<rparr>))
     = [\<lparr>status = 0x2400, length_bd = 0, data = NULL\<rparr>] \<and>
   mmio (vSendBufferToFEC demo_env (demo_state\<lparr>xTxSemaphore := False\<rparr>))
     = [(MCF_FEC_RDAR, 0x01000000)] \<and>
   rx_hw_owned demo_env
     (xFECRxDescriptors (vSendBufferToFEC demo_env (demo_state\<lparr>xTxSemaphore := False\<rparr>)) ! 1) \<and>
   uxNextRxBuffer (vSendBufferToFEC demo_env (demo_state\<lparr>xTxSemaphore := False\<rparr>)) = 2"
proof -
  have h: "ring_inv demo_env (demo_state\<lparr>xTxSemaphore := False\<rparr>)"
    "\<not> xTxSemaphore (demo_state\<lparr>xTxSemaphore := False\<rparr>)" "RX_BD_E demo_env \<noteq> 0"
    by (simp_all add: ring_inv_def demo_env_def demo_state_def fecNUM_FEC_TX_BUFFERS_def)
  have v: "mmio demo_state = []" "uxNextRxBuffer demo_state = 1"
    "configNUM_FEC_RX_BUFFERS demo_env = 3"
    "MCF_FEC_RDAR_R_DES_ACTIVE demo_env = 0x01000000"
    "xFECTxDescriptors demo_state = [\<lparr>status = 0x2400, length_bd = 0, data = NULL\<rparr>]"
    by (simp_all add: demo_env_def demo_state_def)
  show ?thesis
    using vSendBufferToFEC_timeout [OF h, THEN conjunct2] h by (simp add: v)
qed

section \<open>Interrupt dispatcher\<close>

lemma and_or_nonzero:
  "(x AND (a OR b) \<noteq> 0) \<longleftrightarrow> (x AND a \<noteq> 0 \<or> x AND b \<noteq> (0 :: 'a :: len word))"
  by (simp add: bit.conj_disj_distrib or_eq_0_iff)

lemma init_ignores_isr_state:
  "xFECTxDescriptors (prvInitialiseFECBuffers e (reg_write r v s))
     = xFECTxDescriptors (prvInitialiseFECBuffers e s)"
  "xFECRxDescriptors (prvInitialiseFECBuffers e (reg_write r v s))
     = xFECRxDescriptors (prvInitialiseFECBuffers e s)"
  "xFECTxDescriptors (prvInitialiseFECBuffers e (s\<lparr>xFECSemaphore := b\<rparr>))
     = xFECTxDescriptors (prvInitialiseFECBuffers e s)"
  "xFECRxDescriptors (prvInitialiseFECBuffers e (s\<lparr>xFECSemaphore := b\<rparr>))
     = xFECRxDescriptors (prvInitialiseFECBuffers e s)"
  by (simp_all add: prvInitialiseFECBuffers_def Let_def reg_write_def)

lemma status_or_absorb:
  "i < length ds \<Longrightarrow> status (ds ! i) OR f = status (ds ! i) \<Longrightarrow> status_or i f ds = ds"
  by (simp add: status_or_def)

lemma init_rx_status_or:
  assumes "length (xFECRxDescriptors s) = configNUM_FEC_RX_BUFFERS e"
    and "i < configNUM_FEC_RX_BUFFERS e"
  shows "status_or i (RX_BD_E e) (xFECRxDescriptors (prvInitialiseFECBuffers e s))
           = xFECRxDescriptors (prvInitialiseFECBuffers e s)"
proof (rule status_or_absorb)
  show "i < length (xFECRxDescriptors (prvInitialiseFECBuffers e s))"
    using assms by (simp add: init_lengths)
  show "status (xFECRxDescriptors (prvInitialiseFECBuffers e s) ! i) OR RX_BD_E e
          = status (xFECRxDescriptors (prvInitialiseFECBuffers e s) ! i)"
    unfolding init_rx_nth [OF assms] by (simp add: ac_simps)
qed

text \<open>The dispatcher on an event with a fatal bit, and on one without.\<close>

lemma vFEC_ISR_reset:
  assumes "ulEvent = regs s MCF_FEC_EIR AND regs s MCF_FEC_EIMR"
    and "ulEvent AND (MCF_FEC_EIR_UN e OR MCF_FEC_EIR_RL e OR MCF_FEC_EIR_LC e
           OR MCF_FEC_EIR_EBERR e OR MCF_FEC_EIR_BABT e OR MCF_FEC_EIR_BABR e
           OR MCF_FEC_EIR_HBERR e) \<noteq> 0"
  shows "xFECTxDescriptors (vFEC_ISR e s) = xFECTxDescriptors (prvInitialiseFECBuffers e s)"
    and "xFECRxDescriptors (vFEC_ISR e s) =
           (if ulEvent AND MCF_FEC_EIR_TXF e \<noteq> 0 \<or> ulEvent AND MCF_FEC_EIR_TXB e \<noteq> 0
            then status_or (uxIndexToBufferOwner s) (RX_BD_E e)
                   (xFECRxDescriptors (prvInitialiseFECBuffers e s))
            else xFECRxDescriptors (prvInitialiseFECBuffers e s))"
    and "uxNextRxBuffer (vFEC_ISR e s) = 0"
    and "mmio (vFEC_ISR e s) =
           mmio s @ [(MCF_FEC_EIR, ulEvent), (MCF_FEC_ECR, MCF_FEC_ECR_RESET e),
                     (MCF_FEC_ECR, MCF_FEC_ECR_ETHER_EN e),
                     (MCF_FEC_RDAR, MCF_FEC_RDAR_R_DES_ACTIVE e)]
             @ (if ulEvent AND MCF_FEC_EIR_TXF e \<noteq> 0 \<or> ulEvent AND MCF_FEC_EIR_TXB e \<noteq> 0
                then [(MCF_FEC_RDAR, MCF_FEC_RDAR_R_DES_ACTIVE e)] else [])"
    and "regs (vFEC_ISR e s) MCF_FEC_RCR = regs s MCF_FEC_RCR"
    and "regs (vFEC_ISR e s) MCF_FEC_TCR = regs s MCF_FEC_TCR"
    and "regs (vFEC_ISR e s) MCF_FEC_MMFR = regs s MCF_FEC_MMFR"
    and "regs (vFEC_ISR e s) MCF_FEC_RDAR = MCF_FEC_RDAR_R_DES_ACTIVE e"
  using assms(2) unfolding assms(1)
  by (simp_all add: vFEC_ISR_def Let_def prvResetFEC_fields prvResetFEC_regs reg_write_regs
      xSemaphoreGive_xFECSemaphore_def xSemaphoreGive_xTxSemaphore_def
      init_ignores_isr_state)


text \<open>
  C6: an enabled event with any of the fatal bits (underflow, retry limit, late
  collision, bus error, babbling transmit or receive, heartbeat) makes \<open>vFEC_ISR\<close> run
  the full reset. On return both rings are the initialised rings, so every receive
  descriptor is hardware-owned and the transmit descriptor is software-owned; the cursor
  is 0; the writes are the event acknowledge, reset, enable and the receive doorbell
  (and the receive doorbell once more when the event also reports a transmit). No
  management frame is written, so autonegotiation is not repeated, and the receive and
  transmit control registers, which hold the duplex setting, are not written and keep
  their values.
\<close>

theorem vFEC_ISR_fatal:
  assumes "ring_inv e s" and "bd_flags_ok e"
    and "ulEvent = regs s MCF_FEC_EIR AND regs s MCF_FEC_EIMR"
    and "ulEvent AND MCF_FEC_EIR_UN e \<noteq> 0 \<or> ulEvent AND MCF_FEC_EIR_RL e \<noteq> 0 \<or>
         ulEvent AND MCF_FEC_EIR_LC e \<noteq> 0 \<or> ulEvent AND MCF_FEC_EIR_EBERR e \<noteq> 0 \<or>
         ulEvent AND MCF_FEC_EIR_BABT e \<noteq> 0 \<or> ulEvent AND MCF_FEC_EIR_BABR e \<noteq> 0 \<or>
         ulEvent AND MCF_FEC_EIR_HBERR e \<noteq> 0"
  shows "xFECRxDescriptors (vFEC_ISR e s) = xFECRxDescriptors (prvInitialiseFECBuffers e s) \<and>
         xFECTxDescriptors (vFEC_ISR e s) = xFECTxDescriptors (prvInitialiseFECBuffers e s) \<and>
         (\<forall>i < configNUM_FEC_RX_BUFFERS e.
            rx_hw_owned e (xFECRxDescriptors (vFEC_ISR e s) ! i)) \<and>
         (\<forall>i < fecNUM_FEC_TX_BUFFERS.
            \<not> tx_hw_owned e (xFECTxDescriptors (vFEC_ISR e s) ! i)) \<and>
         uxNextRxBuffer (vFEC_ISR e s) = 0 \<and>
         mmio (vFEC_ISR e s) =
           mmio s @ [(MCF_FEC_EIR, ulEvent), (MCF_FEC_ECR, MCF_FEC_ECR_RESET e),
                     (MCF_FEC_ECR, MCF_FEC_ECR_ETHER_EN e),
                     (MCF_FEC_RDAR, MCF_FEC_RDAR_R_DES_ACTIVE e)]
             @ (if ulEvent AND MCF_FEC_EIR_TXF e \<noteq> 0 \<or> ulEvent AND MCF_FEC_EIR_TXB e \<noteq> 0
                then [(MCF_FEC_RDAR, MCF_FEC_RDAR_R_DES_ACTIVE e)] else []) \<and>
         (\<forall>v. (MCF_FEC_MMFR, v) \<notin> set (drop (length (mmio s)) (mmio (vFEC_ISR e s))) \<and>
              (MCF_FEC_RCR, v) \<notin> set (drop (length (mmio s)) (mmio (vFEC_ISR e s))) \<and>
              (MCF_FEC_TCR, v) \<notin> set (drop (length (mmio s)) (mmio (vFEC_ISR e s)))) \<and>
         regs (vFEC_ISR e s) MCF_FEC_RDAR = MCF_FEC_RDAR_R_DES_ACTIVE e \<and>
         regs (vFEC_ISR e s) MCF_FEC_RCR = regs s MCF_FEC_RCR \<and>
         regs (vFEC_ISR e s) MCF_FEC_TCR = regs s MCF_FEC_TCR"
proof -
  have l: "length (xFECTxDescriptors s) = fecNUM_FEC_TX_BUFFERS"
    "length (xFECRxDescriptors s) = configNUM_FEC_RX_BUFFERS e"
    "uxIndexToBufferOwner s < configNUM_FEC_RX_BUFFERS e"
    using assms(1) by (simp_all add: ring_inv_def)
  have f: "RX_BD_E e \<noteq> 0" "(TX_BD_TC e OR TX_BD_W e) AND TX_BD_R e = 0"
    using assms(2) by (simp_all add: bd_flags_ok_def)
  have m: "ulEvent AND (MCF_FEC_EIR_UN e OR MCF_FEC_EIR_RL e OR MCF_FEC_EIR_LC e
           OR MCF_FEC_EIR_EBERR e OR MCF_FEC_EIR_BABT e OR MCF_FEC_EIR_BABR e
           OR MCF_FEC_EIR_HBERR e) \<noteq> 0"
    using assms(4) by (simp only: and_or_nonzero)
  note R = vFEC_ISR_reset [OF assms(3) m]
  have rx: "xFECRxDescriptors (vFEC_ISR e s) = xFECRxDescriptors (prvInitialiseFECBuffers e s)"
    unfolding R(2) by (simp add: init_rx_status_or [OF l(2,3)])
  have o: "\<forall>i < configNUM_FEC_RX_BUFFERS e. rx_hw_owned e (xFECRxDescriptors (vFEC_ISR e s) ! i)"
    unfolding rx using init_rx_owned [OF l(2) _ f(1)] by simp
  have i: "\<forall>i < fecNUM_FEC_TX_BUFFERS. \<not> tx_hw_owned e (xFECTxDescriptors (vFEC_ISR e s) ! i)"
    unfolding R(1) using init_tx_idle [OF l(1) _ f(2)] by simp
  have w: "\<forall>v. (MCF_FEC_MMFR, v) \<notin> set (drop (length (mmio s)) (mmio (vFEC_ISR e s))) \<and>
              (MCF_FEC_RCR, v) \<notin> set (drop (length (mmio s)) (mmio (vFEC_ISR e s))) \<and>
              (MCF_FEC_TCR, v) \<notin> set (drop (length (mmio s)) (mmio (vFEC_ISR e s)))"
    unfolding R(4) by simp
  show ?thesis
    using rx R(1) o i R(3) R(4) w R(8) R(5) R(6) by (intro conjI)
qed

text \<open>An underflow event delivered in the running state.\<close>

theorem vFEC_ISR_fatal_witness:
  "ring_inv demo_env (demo_state\<lparr>regs := (regs demo_state)(MCF_FEC_EIR := 0x00080000)\<rparr>) \<and>
   bd_flags_ok demo_env \<and>
   (0x00080000 :: 32 word) AND MCF_FEC_EIR_UN demo_env \<noteq> 0 \<and>
   rx_hw_owned demo_env
     (xFECRxDescriptors
        (vFEC_ISR demo_env
           (demo_state\<lparr>regs := (regs demo_state)(MCF_FEC_EIR := 0x00080000)\<rparr>)) ! 1) \<and>
   \<not> tx_hw_owned demo_env
     (xFECTxDescriptors
        (vFEC_ISR demo_env
           (demo_state\<lparr>regs := (regs demo_state)(MCF_FEC_EIR := 0x00080000)\<rparr>)) ! 0) \<and>
   uxNextRxBuffer
     (vFEC_ISR demo_env
        (demo_state\<lparr>regs := (regs demo_state)(MCF_FEC_EIR := 0x00080000)\<rparr>)) = 0 \<and>
   mmio (vFEC_ISR demo_env
           (demo_state\<lparr>regs := (regs demo_state)(MCF_FEC_EIR := 0x00080000)\<rparr>))
     = [(MCF_FEC_EIR, 0x00080000), (MCF_FEC_ECR, 1), (MCF_FEC_ECR, 2),
        (MCF_FEC_RDAR, 0x01000000)] \<and>
   regs (vFEC_ISR demo_env
           (demo_state\<lparr>regs := (regs demo_state)(MCF_FEC_EIR := 0x00080000)\<rparr>)) MCF_FEC_RCR
     = 0x05EE0024 \<and>
   regs (vFEC_ISR demo_env
           (demo_state\<lparr>regs := (regs demo_state)(MCF_FEC_EIR := 0x00080000)\<rparr>)) MCF_FEC_TCR
     = 0x00000004"
proof -
  let ?s = "demo_state\<lparr>regs := (regs demo_state)(MCF_FEC_EIR := 0x00080000)\<rparr>"
  have h: "ring_inv demo_env ?s" "bd_flags_ok demo_env"
    "(0x00080000 :: 32 word) = regs ?s MCF_FEC_EIR AND regs ?s MCF_FEC_EIMR"
    by (simp_all add: ring_inv_def bd_flags_ok_def demo_env_def demo_state_def
        fecNUM_FEC_TX_BUFFERS_def)
  have u: "(0x00080000 :: 32 word) AND MCF_FEC_EIR_UN demo_env \<noteq> 0"
    by (simp add: demo_env_def)
  have d: "(0x00080000 :: 32 word) AND MCF_FEC_EIR_UN demo_env \<noteq> 0 \<or>
         (0x00080000 :: 32 word) AND MCF_FEC_EIR_RL demo_env \<noteq> 0 \<or>
         (0x00080000 :: 32 word) AND MCF_FEC_EIR_LC demo_env \<noteq> 0 \<or>
         (0x00080000 :: 32 word) AND MCF_FEC_EIR_EBERR demo_env \<noteq> 0 \<or>
         (0x00080000 :: 32 word) AND MCF_FEC_EIR_BABT demo_env \<noteq> 0 \<or>
         (0x00080000 :: 32 word) AND MCF_FEC_EIR_BABR demo_env \<noteq> 0 \<or>
         (0x00080000 :: 32 word) AND MCF_FEC_EIR_HBERR demo_env \<noteq> 0"
    using u by blast
  note T = vFEC_ISR_fatal [OF h d]
  have n: "1 < configNUM_FEC_RX_BUFFERS demo_env" "0 < fecNUM_FEC_TX_BUFFERS"
    by (simp_all add: demo_env_def fecNUM_FEC_TX_BUFFERS_def)
  have v: "mmio demo_state = []" "MCF_FEC_ECR_RESET demo_env = 1"
    "MCF_FEC_ECR_ETHER_EN demo_env = 2" "MCF_FEC_RDAR_R_DES_ACTIVE demo_env = 0x01000000"
    "regs demo_state MCF_FEC_RCR = 0x05EE0024" "regs demo_state MCF_FEC_TCR = 0x00000004"
    "(0x00080000 :: 32 word) AND MCF_FEC_EIR_TXF demo_env = 0"
    "(0x00080000 :: 32 word) AND MCF_FEC_EIR_TXB demo_env = 0"
    by (simp_all add: demo_env_def demo_state_def)
  note c2 = conjunct2
  note O = T [THEN c2, THEN c2, THEN conjunct1, rule_format, OF n(1)]
  note I = T [THEN c2, THEN c2, THEN c2, THEN conjunct1, rule_format, OF n(2)]
  note C = T [THEN c2, THEN c2, THEN c2, THEN c2, THEN conjunct1]
  have M: "mmio (vFEC_ISR demo_env ?s)
     = [(MCF_FEC_EIR, 0x00080000), (MCF_FEC_ECR, 1), (MCF_FEC_ECR, 2),
        (MCF_FEC_RDAR, 0x01000000)]"
    using T [THEN c2, THEN c2, THEN c2, THEN c2, THEN c2, THEN conjunct1]
    by (simp add: v)
  have G: "regs (vFEC_ISR demo_env ?s) MCF_FEC_RCR = 0x05EE0024"
    "regs (vFEC_ISR demo_env ?s) MCF_FEC_TCR = 0x00000004"
    using T [THEN c2, THEN c2, THEN c2, THEN c2, THEN c2, THEN c2, THEN c2, THEN c2]
    by (simp_all add: v)
  show ?thesis
    using h(1,2) u O I C M G by (intro conjI)
qed

section \<open>Zero-copy handoff\<close>









section \<open>MII read\<close>

lemma mii_poll_max_iff:
  "timeout \<le> fecMAX_POLLS \<Longrightarrow>
   (mii_poll e eir timeout = fecMAX_POLLS \<longleftrightarrow>
      (\<forall>i. timeout \<le> i \<and> i < fecMAX_POLLS \<longrightarrow> eir i AND MCF_FEC_EIR_MII e = 0))"
proof (induction e eir timeout rule: mii_poll.induct)
  case (1 e eir timeout)
  show ?case
  proof (cases "timeout < fecMAX_POLLS")
    case False
    then have "mii_poll e eir timeout = timeout" by (subst mii_poll.simps) simp
    then show ?thesis using False "1.prems" by auto
  next
    case True
    show ?thesis
    proof (cases "eir timeout AND MCF_FEC_EIR_MII e \<noteq> 0")
      case f: True
      then have "mii_poll e eir timeout = timeout"
        using True by (subst mii_poll.simps) simp
      then show ?thesis using True f by auto
    next
      case f: False
      have r: "mii_poll e eir timeout = mii_poll e eir (Suc timeout)"
        using True f by (subst mii_poll.simps) simp
      have "(mii_poll e eir (Suc timeout) = fecMAX_POLLS) \<longleftrightarrow>
              (\<forall>i. Suc timeout \<le> i \<and> i < fecMAX_POLLS \<longrightarrow> eir i AND MCF_FEC_EIR_MII e = 0)"
        using "1.IH" [OF True f] True by simp
      also have "\<dots> \<longleftrightarrow> (\<forall>i. timeout \<le> i \<and> i < fecMAX_POLLS \<longrightarrow> eir i AND MCF_FEC_EIR_MII e = 0)"
        using f by (metis Suc_leD Suc_leI le_neq_implies_less)
      finally show ?thesis unfolding r .
    qed
  qed
qed

lemma fec_mii_read_result:
  "fst (fec_mii_read e eir mmfr phy_addr reg_addr data0 s) =
     (if mii_poll e eir 0 = fecMAX_POLLS then 0 else 1)"
  "fst (snd (fec_mii_read e eir mmfr phy_addr reg_addr data0 s)) =
     (if mii_poll e eir 0 = fecMAX_POLLS then data0 else ucast (mmfr AND 0x0000FFFF))"
  by (simp_all add: fec_mii_read_def Let_def)

text \<open>
  C10: when none of the \<open>fecMAX_POLLS\<close> polls of the event register sees the completion
  flag, \<open>fec_mii_read\<close> returns 0 and the caller's variable keeps the value it had. The
  function returns 0 in that case only; otherwise it returns 1 and the variable holds
  the low 16 bits of the management frame register. The variable is written on the
  success path alone.
\<close>

theorem fec_mii_read_timeout:
  "((\<forall>i < fecMAX_POLLS. eir i AND MCF_FEC_EIR_MII e = 0) \<longrightarrow>
      fst (fec_mii_read e eir mmfr phy_addr reg_addr data0 s) = 0 \<and>
      fst (snd (fec_mii_read e eir mmfr phy_addr reg_addr data0 s)) = data0) \<and>
   (fst (fec_mii_read e eir mmfr phy_addr reg_addr data0 s) = 0 \<longleftrightarrow>
      (\<forall>i < fecMAX_POLLS. eir i AND MCF_FEC_EIR_MII e = 0)) \<and>
   (fst (fec_mii_read e eir mmfr phy_addr reg_addr data0 s) \<noteq> 0 \<longrightarrow>
      fst (fec_mii_read e eir mmfr phy_addr reg_addr data0 s) = 1 \<and>
      fst (snd (fec_mii_read e eir mmfr phy_addr reg_addr data0 s))
        = ucast (mmfr AND 0x0000FFFF)) \<and>
   (fst (fec_mii_read e eir mmfr phy_addr reg_addr data0 s) = 0 \<longrightarrow>
      fst (snd (fec_mii_read e eir mmfr phy_addr reg_addr data0 s)) = data0)"
proof -
  have p: "mii_poll e eir 0 = fecMAX_POLLS \<longleftrightarrow>
             (\<forall>i < fecMAX_POLLS. eir i AND MCF_FEC_EIR_MII e = 0)"
    using mii_poll_max_iff [of 0 e eir] by simp
  show ?thesis
    unfolding fec_mii_read_result p [symmetric] by simp
qed

text \<open>
  A device that never completes leaves \<open>0x1234\<close> in the caller's variable; one that
  completes at the third poll delivers the register's low half.
\<close>

theorem fec_mii_read_timeout_witness:
  "fst (fec_mii_read demo_env (\<lambda>i. 0) 0x6006ABCD 0 2 0x1234 demo_state) = 0 \<and>
   fst (snd (fec_mii_read demo_env (\<lambda>i. 0) 0x6006ABCD 0 2 0x1234 demo_state)) = 0x1234 \<and>
   fst (fec_mii_read demo_env (\<lambda>i. if i = 2 then 0x00800000 else 0)
          0x6006ABCD 0 2 0x1234 demo_state) = 1 \<and>
   fst (snd (fec_mii_read demo_env (\<lambda>i. if i = 2 then 0x00800000 else 0)
          0x6006ABCD 0 2 0x1234 demo_state)) = 0xABCD"
proof -
  have a: "\<forall>i < fecMAX_POLLS. (\<lambda>i. 0 :: 32 word) i AND MCF_FEC_EIR_MII demo_env = 0"
    by simp
  have b: "\<not> (\<forall>i < fecMAX_POLLS.
              (\<lambda>i. if i = 2 then 0x00800000 else 0 :: 32 word) i AND MCF_FEC_EIR_MII demo_env = 0)"
    by (simp add: fecMAX_POLLS_def demo_env_def)
  note T1 = fec_mii_read_timeout [of "\<lambda>i. 0" demo_env "0x6006ABCD" 0 2 "0x1234" demo_state]
  note T2 = fec_mii_read_timeout [of "\<lambda>i. if i = 2 then 0x00800000 else 0" demo_env
      "0x6006ABCD" 0 2 "0x1234" demo_state]
  have r1: "fst (fec_mii_read demo_env (\<lambda>i. 0) 0x6006ABCD 0 2 0x1234 demo_state) = 0 \<and>
      fst (snd (fec_mii_read demo_env (\<lambda>i. 0) 0x6006ABCD 0 2 0x1234 demo_state)) = 0x1234"
    using T1 [THEN conjunct1] a by blast
  have n: "fst (fec_mii_read demo_env (\<lambda>i. if i = 2 then 0x00800000 else 0)
          0x6006ABCD 0 2 0x1234 demo_state) \<noteq> 0"
    using T2 [THEN conjunct2, THEN conjunct1] b by blast
  have r2: "fst (fec_mii_read demo_env (\<lambda>i. if i = 2 then 0x00800000 else 0)
          0x6006ABCD 0 2 0x1234 demo_state) = 1 \<and>
      fst (snd (fec_mii_read demo_env (\<lambda>i. if i = 2 then 0x00800000 else 0)
          0x6006ABCD 0 2 0x1234 demo_state)) = ucast (0x6006ABCD AND 0x0000FFFF :: 32 word)"
    using T2 [THEN conjunct2, THEN conjunct2, THEN conjunct1] n by blast
  have u: "(ucast (0x6006ABCD AND 0x0000FFFF :: 32 word) :: 16 word) = 0xABCD"
    by simp
  show ?thesis using r1 r2 unfolding u by blast
qed

section \<open>Link decoding\<close>

lemma flag_set: "(x OR f) AND f = (f :: 'a :: len word)"
  by (auto simp add: bit_eq_iff bit_and_iff bit_or_iff)

lemma flag_clear: "(x AND NOT f) AND f = (0 :: 'a :: len word)"
  by (auto simp add: bit_eq_iff bit_and_iff bit_not_iff)

lemma icr_loop_regs:
  "(\<And>n. r \<noteq> MCF_INTC0_ICR n) \<Longrightarrow> regs (icr_loop b ux s) r = regs s r"
proof (induction b ux s rule: icr_loop.induct)
  case (1 b ux s)
  show ?case
  proof (cases "ux \<le> uxLastFECVector")
    case True
    have "regs (icr_loop b ux s) r
            = regs (icr_loop b (Suc ux)
                 (reg_write (MCF_INTC0_ICR ux)
                    (MCF_INTC_ICR_IL b (configFEC_INTERRUPT_PRIORITY b)) s)) r"
      using True by (subst icr_loop.simps) simp
    also have "\<dots> = regs (reg_write (MCF_INTC0_ICR ux)
                    (MCF_INTC_ICR_IL b (configFEC_INTERRUPT_PRIORITY b)) s) r"
      using "1.IH" [OF True] "1.prems" by simp
    also have "\<dots> = regs s r"
      using "1.prems" [of ux] by (simp add: reg_write_regs)
    finally show ?thesis .
  next
    case False
    then show ?thesis by (subst icr_loop.simps) simp
  qed
qed

lemma prvEnableFECInterrupts_TCR:
  "regs (prvEnableFECInterrupts b s) MCF_FEC_TCR = regs s MCF_FEC_TCR"
  by (simp add: prvEnableFECInterrupts_def Let_def reg_write_regs icr_loop_regs)

lemma fec_set_address_TCR:
  "regs (fec_set_address pa s) MCF_FEC_TCR = regs s MCF_FEC_TCR"
  by (simp add: fec_set_address_def Let_def reg_write_regs)

lemma fec_mii_read_state:
  "regs (snd (snd (fec_mii_read e eir mmfr phy_addr reg_addr data0 s))) MCF_FEC_TCR
     = regs s MCF_FEC_TCR"
  "snd (snd (fec_mii_read e eir mmfr' phy_addr reg_addr data0' s))
     = snd (snd (fec_mii_read e eir mmfr phy_addr reg_addr data0 s))"
  by (simp_all add: fec_mii_read_def Let_def reg_write_regs)

lemma fec_mii_read_word:
  assumes "\<exists>i < fecMAX_POLLS. eir i AND MCF_FEC_EIR_MII e \<noteq> 0"
  shows "fst (snd (fec_mii_read e eir mmfr phy_addr reg_addr data0 s))
           = ucast (mmfr AND 0x0000FFFF)"
proof -
  have "mii_poll e eir 0 \<noteq> fecMAX_POLLS"
    using mii_poll_max_iff [of 0 e eir] assms by auto
  then show ?thesis by (simp add: fec_mii_read_result)
qed

lemma vInitFEC_link_up_TCR:
  "regs (vInitFEC_link_up e b eir mmfr usData0 s) MCF_FEC_TCR =
     (if fst (snd (fec_mii_read e eir mmfr (configPHY_ADDRESS b) (PHY_ANLPAR b) usData0 s))
            AND PHY_ANLPAR_100BTX_FDX e \<noteq> 0
         \<or> fst (snd (fec_mii_read e eir mmfr (configPHY_ADDRESS b) (PHY_ANLPAR b) usData0 s))
            AND PHY_ANLPAR_10BTX_FDX e \<noteq> 0
      then regs s MCF_FEC_TCR OR MCF_FEC_TCR_FDEN e
      else regs s MCF_FEC_TCR AND NOT (MCF_FEC_TCR_FDEN e))"
  by (simp add: vInitFEC_link_up_def Let_def reg_write_regs prvEnableFECInterrupts_TCR
      fec_set_address_TCR fec_mii_read_state(1))

lemma vInitFEC_link_up_same:
  assumes "(fst (snd (fec_mii_read e eir mmfr' (configPHY_ADDRESS b) (PHY_ANLPAR b) usData0' s))
              AND PHY_ANLPAR_100BTX_FDX e \<noteq> 0
            \<or> fst (snd (fec_mii_read e eir mmfr' (configPHY_ADDRESS b) (PHY_ANLPAR b) usData0' s))
              AND PHY_ANLPAR_10BTX_FDX e \<noteq> 0)
         = (fst (snd (fec_mii_read e eir mmfr (configPHY_ADDRESS b) (PHY_ANLPAR b) usData0 s))
              AND PHY_ANLPAR_100BTX_FDX e \<noteq> 0
            \<or> fst (snd (fec_mii_read e eir mmfr (configPHY_ADDRESS b) (PHY_ANLPAR b) usData0 s))
              AND PHY_ANLPAR_10BTX_FDX e \<noteq> 0)"
  shows "vInitFEC_link_up e b eir mmfr' usData0' s = vInitFEC_link_up e b eir mmfr usData0 s"
  unfolding vInitFEC_link_up_def Let_def if_cancel assms
    fec_mii_read_state(2) [of e eir mmfr' _ _ usData0' s mmfr usData0] ..

text \<open>
  C7, as the code has it: when the read of the link partner ability register has
  completed, \<open>usData\<close> is the word read, and when \<open>vInitFEC\<close> ends full duplex is
  enabled in the transmit control register (\<open>FDEN\<close>) exactly if 100BASE-TX full duplex
  or 10BASE-T full duplex is advertised. So 100BASE-TX full duplex gives full duplex,
  and a word that advertises neither 100BASE-TX mode nor 10BASE-T full duplex gives half
  duplex. The speed test holds exactly when 100BASE-TX half or full duplex is
  advertised, but both of its branches are empty: two words that agree on the duplex
  test leave the same state at the end of \<open>vInitFEC\<close>, whatever speed they advertise.
\<close>

theorem vInitFEC_link_up_duplex:
  assumes "MCF_FEC_TCR_FDEN e \<noteq> 0"
    and "\<exists>i < fecMAX_POLLS. eir i AND MCF_FEC_EIR_MII e \<noteq> 0"
    and "usData = ucast (mmfr AND 0x0000FFFF)"
    and "usData' = ucast (mmfr' AND 0x0000FFFF)"
  shows "fst (snd (fec_mii_read e eir mmfr (configPHY_ADDRESS b) (PHY_ANLPAR b) usData0 s))
           = usData \<and>
         (regs (vInitFEC_link_up e b eir mmfr usData0 s) MCF_FEC_TCR AND MCF_FEC_TCR_FDEN e \<noteq> 0
            \<longleftrightarrow> usData AND PHY_ANLPAR_100BTX_FDX e \<noteq> 0
                 \<or> usData AND PHY_ANLPAR_10BTX_FDX e \<noteq> 0) \<and>
         (usData AND PHY_ANLPAR_100BTX_FDX e \<noteq> 0 \<longrightarrow>
            speed_is_100 e usData \<and>
            regs (vInitFEC_link_up e b eir mmfr usData0 s) MCF_FEC_TCR
              AND MCF_FEC_TCR_FDEN e \<noteq> 0) \<and>
         (usData AND PHY_ANLPAR_100BTX_FDX e = 0 \<and> usData AND PHY_ANLPAR_100BTX e = 0 \<and>
          usData AND PHY_ANLPAR_10BTX_FDX e = 0 \<longrightarrow>
            \<not> speed_is_100 e usData \<and>
            regs (vInitFEC_link_up e b eir mmfr usData0 s) MCF_FEC_TCR
              AND MCF_FEC_TCR_FDEN e = 0) \<and>
         (speed_is_100 e usData \<longleftrightarrow>
            usData AND PHY_ANLPAR_100BTX_FDX e \<noteq> 0 \<or> usData AND PHY_ANLPAR_100BTX e \<noteq> 0) \<and>
         ((usData' AND PHY_ANLPAR_100BTX_FDX e \<noteq> 0 \<or> usData' AND PHY_ANLPAR_10BTX_FDX e \<noteq> 0)
            = (usData AND PHY_ANLPAR_100BTX_FDX e \<noteq> 0 \<or> usData AND PHY_ANLPAR_10BTX_FDX e \<noteq> 0)
          \<longrightarrow> vInitFEC_link_up e b eir mmfr' usData0' s
                = vInitFEC_link_up e b eir mmfr usData0 s)"
proof -
  have w: "fst (snd (fec_mii_read e eir mmfr (configPHY_ADDRESS b) (PHY_ANLPAR b) usData0 s))
             = usData"
    "fst (snd (fec_mii_read e eir mmfr' (configPHY_ADDRESS b) (PHY_ANLPAR b) usData0' s))
             = usData'"
    unfolding assms(3,4) by (rule fec_mii_read_word [OF assms(2)])+
  have a: "regs (vInitFEC_link_up e b eir mmfr usData0 s) MCF_FEC_TCR AND MCF_FEC_TCR_FDEN e \<noteq> 0
            \<longleftrightarrow> usData AND PHY_ANLPAR_100BTX_FDX e \<noteq> 0
                 \<or> usData AND PHY_ANLPAR_10BTX_FDX e \<noteq> 0"
    unfolding vInitFEC_link_up_TCR w using assms(1) by (simp add: flag_set flag_clear)
  have c: "usData AND PHY_ANLPAR_100BTX_FDX e \<noteq> 0 \<longrightarrow>
            speed_is_100 e usData \<and>
            regs (vInitFEC_link_up e b eir mmfr usData0 s) MCF_FEC_TCR
              AND MCF_FEC_TCR_FDEN e \<noteq> 0"
    using a by (simp add: speed_is_100_def)
  have d: "usData AND PHY_ANLPAR_100BTX_FDX e = 0 \<and> usData AND PHY_ANLPAR_100BTX e = 0 \<and>
          usData AND PHY_ANLPAR_10BTX_FDX e = 0 \<longrightarrow>
            \<not> speed_is_100 e usData \<and>
            regs (vInitFEC_link_up e b eir mmfr usData0 s) MCF_FEC_TCR
              AND MCF_FEC_TCR_FDEN e = 0"
    using a by (auto simp add: speed_is_100_def)
  have f: "speed_is_100 e usData \<longleftrightarrow>
            usData AND PHY_ANLPAR_100BTX_FDX e \<noteq> 0 \<or> usData AND PHY_ANLPAR_100BTX e \<noteq> 0"
    by (simp add: speed_is_100_def)
  have g: "(usData' AND PHY_ANLPAR_100BTX_FDX e \<noteq> 0 \<or> usData' AND PHY_ANLPAR_10BTX_FDX e \<noteq> 0)
            = (usData AND PHY_ANLPAR_100BTX_FDX e \<noteq> 0 \<or> usData AND PHY_ANLPAR_10BTX_FDX e \<noteq> 0)
          \<longrightarrow> vInitFEC_link_up e b eir mmfr' usData0' s
                = vInitFEC_link_up e b eir mmfr usData0 s"
    using vInitFEC_link_up_same [of e eir mmfr' b usData0' s mmfr usData0] unfolding w
    by blast
  show ?thesis
    using w(1) a c d f g by (intro conjI)
qed

text \<open>
  A partner that advertises 100BASE-TX full duplex (\<open>0x0100\<close>) and one that advertises
  10BASE-T half duplex only (\<open>0x0020\<close>), with a device that completes the read at the
  third poll.
\<close>

theorem vInitFEC_link_up_duplex_witness:
  "MCF_FEC_TCR_FDEN demo_env \<noteq> 0 \<and>
   demo_eir 2 AND MCF_FEC_EIR_MII demo_env \<noteq> 0 \<and>
   fst (snd (fec_mii_read demo_env demo_eir 0x60160100 (configPHY_ADDRESS demo_init)
               (PHY_ANLPAR demo_init) 0x782D demo_state)) = 0x0100 \<and>
   speed_is_100 demo_env 0x0100 \<and>
   regs (vInitFEC_link_up demo_env demo_init demo_eir 0x60160100 0x782D demo_state) MCF_FEC_TCR
     AND MCF_FEC_TCR_FDEN demo_env \<noteq> 0 \<and>
   \<not> speed_is_100 demo_env 0x0020 \<and>
   regs (vInitFEC_link_up demo_env demo_init demo_eir 0x60160020 0x782D demo_state) MCF_FEC_TCR
     AND MCF_FEC_TCR_FDEN demo_env = 0"
proof -
  have h: "MCF_FEC_TCR_FDEN demo_env \<noteq> 0"
    "demo_eir 2 AND MCF_FEC_EIR_MII demo_env \<noteq> 0"
    by (simp_all add: demo_env_def demo_eir_def)
  have p: "\<exists>i < fecMAX_POLLS. demo_eir i AND MCF_FEC_EIR_MII demo_env \<noteq> 0"
    using h(2) by (intro exI [of _ 2]) (simp add: fecMAX_POLLS_def)
  have u: "(0x0100 :: 16 word) = ucast (0x60160100 AND 0x0000FFFF :: 32 word)"
    "(0x0020 :: 16 word) = ucast (0x60160020 AND 0x0000FFFF :: 32 word)"
    by simp_all
  have v: "(0x0100 :: 16 word) AND PHY_ANLPAR_100BTX_FDX demo_env \<noteq> 0"
    "(0x0020 :: 16 word) AND PHY_ANLPAR_100BTX_FDX demo_env = 0 \<and>
     (0x0020 :: 16 word) AND PHY_ANLPAR_100BTX demo_env = 0 \<and>
     (0x0020 :: 16 word) AND PHY_ANLPAR_10BTX_FDX demo_env = 0"
    by (simp_all add: demo_env_def)
  note c2 = conjunct2
  note A = vInitFEC_link_up_duplex [OF h(1) p u(1) u(1), of demo_init "0x782D" demo_state]
  note B = vInitFEC_link_up_duplex [OF h(1) p u(2) u(2), of demo_init "0x782D" demo_state]
  note A1 = A [THEN conjunct1]
  note A3 = A [THEN c2, THEN c2, THEN conjunct1, rule_format, OF v(1)]
  note B4 = B [THEN c2, THEN c2, THEN c2, THEN conjunct1, rule_format, OF v(2)]
  show ?thesis
    using h A1 A3 B4 by (intro conjI) simp_all
qed

text \<open>
  The claim as stated asks for a configured speed. A partner advertising 100BASE-TX half
  duplex only (\<open>0x0080\<close>) and one advertising 10BASE-T half duplex only (\<open>0x0020\<close>) are
  read correctly and take different branches of the speed test, and \<open>vInitFEC\<close> ends in
  the very same state for both: nothing records the speed.
\<close>

theorem vInitFEC_link_up_speed_counterexample:
  "fst (snd (fec_mii_read demo_env demo_eir 0x60160080 (configPHY_ADDRESS demo_init)
               (PHY_ANLPAR demo_init) 0x782D demo_state)) = 0x0080 \<and>
   fst (snd (fec_mii_read demo_env demo_eir 0x60160020 (configPHY_ADDRESS demo_init)
               (PHY_ANLPAR demo_init) 0x782D demo_state)) = 0x0020 \<and>
   speed_is_100 demo_env 0x0080 \<and> \<not> speed_is_100 demo_env 0x0020 \<and>
   vInitFEC_link_up demo_env demo_init demo_eir 0x60160080 0x782D demo_state
     = vInitFEC_link_up demo_env demo_init demo_eir 0x60160020 0x782D demo_state"
proof -
  have p: "\<exists>i < fecMAX_POLLS. demo_eir i AND MCF_FEC_EIR_MII demo_env \<noteq> 0"
    by (intro exI [of _ 2]) (simp add: fecMAX_POLLS_def demo_env_def demo_eir_def)
  have r: "fst (snd (fec_mii_read demo_env demo_eir 0x60160080 (configPHY_ADDRESS demo_init)
               (PHY_ANLPAR demo_init) 0x782D demo_state)) = 0x0080"
    "fst (snd (fec_mii_read demo_env demo_eir 0x60160020 (configPHY_ADDRESS demo_init)
               (PHY_ANLPAR demo_init) 0x782D demo_state)) = 0x0020"
    unfolding fec_mii_read_word [OF p] by simp_all
  have sp: "speed_is_100 demo_env 0x0080" "\<not> speed_is_100 demo_env 0x0020"
    by (simp_all add: speed_is_100_def demo_env_def)
  have t: "((0x0080 :: 16 word) AND PHY_ANLPAR_100BTX_FDX demo_env \<noteq> 0
            \<or> (0x0080 :: 16 word) AND PHY_ANLPAR_10BTX_FDX demo_env \<noteq> 0)
         = ((0x0020 :: 16 word) AND PHY_ANLPAR_100BTX_FDX demo_env \<noteq> 0
            \<or> (0x0020 :: 16 word) AND PHY_ANLPAR_10BTX_FDX demo_env \<noteq> 0)"
    by (simp add: demo_env_def)
  have e: "vInitFEC_link_up demo_env demo_init demo_eir 0x60160080 0x782D demo_state
     = vInitFEC_link_up demo_env demo_init demo_eir 0x60160020 0x782D demo_state"
    by (rule vInitFEC_link_up_same) (simp only: r t)
  show ?thesis
    using r sp e by (intro conjI)
qed

end
